theory Spec2Isabelle
  imports Complex_Main "HOL-Library.Word"
begin

section \<open>Values, exceptions and the outside world\<close>

text \<open>
  The service of \<^verbatim>\<open>railway_deployment.py\<close> is a Flask application: two handlers
  (\<^verbatim>\<open>/analyze\<close>, \<^verbatim>\<open>/batch-analyze\<close>) stage an uploaded document as a temporary
  file, extract its text (\<^verbatim>\<open>RegulatoryAnalyzer.parse_file\<close>), ask a language model for
  a JSON analysis (\<^verbatim>\<open>RegulatoryAnalyzer.analyze_document\<close>) and shape the answer.

  Python values that travel through the handlers are JSON values. A \<^verbatim>\<open>dict\<close> keeps
  its insertion order, so an object is an association list. A Python \<^verbatim>\<open>str\<close> is
  a list of characters, one list element per character, so \<^verbatim>\<open>len\<close> is
  \<^const>\<open>length\<close> and the slice \<^verbatim>\<open>s[:n]\<close> is \<^const>\<open>take\<close>.
\<close>

datatype json =
    JNull
  | JBool bool
  | JInt int
  | JFloat real
  | JStr string
  | JArr "json list"
  | JObj "(string \<times> json) list"

type_synonym bytes = "8 word list"

text \<open>
  Exceptions are values. \<open>HTTPException code s\<close> is one of werkzeug's HTTP exceptions
  (\<^verbatim>\<open>NotFound\<close>, \<^verbatim>\<open>BadRequest\<close>, ...) with its status code; \<open>LibError s\<close> stands for
  any other exception raised inside a library (PyPDF2, python-docx, the codec, the
  Anthropic client, \<^verbatim>\<open>json\<close>, \<^verbatim>\<open>base64\<close>). Both carry what \<^verbatim>\<open>str(e)\<close> would
  print.
\<close>

datatype exn =
    ValueError string
  | TypeError string
  | KeyError string
  | AttributeError string
  | FileNotFoundError string
  | HTTPException nat string
  | LibError string

definition squote :: "string \<Rightarrow> string" where
  "squote s = [CHR 0x27] @ s @ [CHR 0x27]"

fun exn_str :: "exn \<Rightarrow> string" where
  "exn_str (ValueError m) = m"
| "exn_str (TypeError m) = m"
| "exn_str (KeyError k) = squote k"
| "exn_str (AttributeError m) = m"
| "exn_str (FileNotFoundError p) = ''[Errno 2] No such file or directory: '' @ squote p"
| "exn_str (HTTPException code m) = m"
| "exn_str (LibError m) = m"

text \<open>
  What the process does to its surroundings is recorded in the order it happens: a
  temporary file is created and written (\<open>EvStage\<close>), a temporary file is created but
  the write to it raises, so that the file stays behind (\<open>EvStageFailed\<close>), a prompt is
  sent to the model, a file is unlinked, a line goes to the error log.
\<close>

datatype event =
    EvStage string
  | EvStageFailed string
  | EvLLM string
  | EvUnlink string
  | EvLogError string

text \<open>
  The world a handler runs in: the files on disk, the number of temporary names drawn so
  far, the number of clock readings so far, and the record of effects.
\<close>

record world =
  files :: "string \<Rightarrow> bytes option"
  tmp_seq :: nat
  ticks :: nat
  log :: "event list"

text \<open>
  The libraries are parameters of the model. \<open>path_suffix\<close> is
  \<^verbatim>\<open>pathlib.Path(p).suffix\<close>; \<open>tmp_name n s\<close> is the name that
  \<^verbatim>\<open>tempfile.NamedTemporaryFile(delete=False, suffix=s)\<close> settles on at its \<open>n\<close>-th
  use, \<open>tmp_create_error n s\<close> the exception it raises instead of creating the file (if
  any: a suffix that makes the name too long, a directory that cannot be written), and
  \<open>tmp_write_error n content\<close> the exception that \<^verbatim>\<open>temp_file.write(content)\<close> raises
  there (if any: a full disk), together with the bytes that reached the file;
  \<open>b64decode\<close> is \<^verbatim>\<open>base64.b64decode\<close> on whatever JSON value the request
  carried; \<open>pdf_pages\<close> gives the \<^verbatim>\<open>extract_text()\<close> of each page of a PDF,
  \<open>docx_paragraphs\<close> the text of each paragraph of a DOCX, \<open>utf8_decode\<close> the UTF-8
  reading of a file; \<open>messages_create\<close> is the call to the model together with
  \<^verbatim>\<open>response.content[0].text\<close>; \<open>json_loads\<close> is \<^verbatim>\<open>json.loads\<close>;
  \<open>isoformat_now t\<close> is \<^verbatim>\<open>datetime.now().isoformat()\<close> at the \<open>t\<close>-th reading of
  the clock and \<open>strftime_now t\<close> is
  \<^verbatim>\<open>datetime.now().strftime('%Y-%m-%d %H:%M:%S UTC')\<close> there; \<open>render_home\<close> is
  \<^verbatim>\<open>render_template_string\<close> on the page of \<^verbatim>\<open>home()\<close>; \<open>url_match\<close> is the
  matching of a path and a method against the URL map that the \<^verbatim>\<open>@app.route\<close>
  decorators build: it names the view, or raises werkzeug's \<^verbatim>\<open>NotFound\<close>,
  \<^verbatim>\<open>MethodNotAllowed\<close> or a redirect.
\<close>

datatype endpoint = Home | AnalyzeDocument | BatchAnalyze | HealthCheck | TestEndpoint

record env =
  path_suffix :: "string \<Rightarrow> string"
  tmp_name :: "nat \<Rightarrow> string \<Rightarrow> string"
  tmp_create_error :: "nat \<Rightarrow> string \<Rightarrow> exn option"
  tmp_write_error :: "nat \<Rightarrow> bytes \<Rightarrow> (exn \<times> bytes) option"
  b64decode :: "json \<Rightarrow> exn + bytes"
  pdf_pages :: "bytes \<Rightarrow> exn + string list"
  docx_paragraphs :: "bytes \<Rightarrow> exn + string list"
  utf8_decode :: "bytes \<Rightarrow> exn + string"
  messages_create :: "string \<Rightarrow> exn + string"
  json_loads :: "string \<Rightarrow> exn + json"
  isoformat_now :: "nat \<Rightarrow> string"
  strftime_now :: "nat \<Rightarrow> string"
  render_home :: "string \<Rightarrow> string"
  url_match :: "string \<Rightarrow> string \<Rightarrow> exn + endpoint"

subsection \<open>Python's built-in operations on JSON values\<close>

fun type_name :: "json \<Rightarrow> string" where
  "type_name JNull = ''NoneType''"
| "type_name (JBool b) = ''bool''"
| "type_name (JInt i) = ''int''"
| "type_name (JFloat r) = ''float''"
| "type_name (JStr s) = ''str''"
| "type_name (JArr xs) = ''list''"
| "type_name (JObj kvs) = ''dict''"

text \<open>Truth value testing, as \<^verbatim>\<open>not v\<close> and \<^verbatim>\<open>if v\<close> use it.\<close>

fun truthy :: "json \<Rightarrow> bool" where
  "truthy JNull = False"
| "truthy (JBool b) = b"
| "truthy (JInt i) = (i \<noteq> 0)"
| "truthy (JFloat r) = (r \<noteq> 0)"
| "truthy (JStr s) = (s \<noteq> [])"
| "truthy (JArr xs) = (xs \<noteq> [])"
| "truthy (JObj kvs) = (kvs \<noteq> [])"

text \<open>\<^verbatim>\<open>d.get(k, default)\<close>: only a dict has the method.\<close>

fun py_get :: "json \<Rightarrow> string \<Rightarrow> json \<Rightarrow> exn + json" where
  "py_get (JObj kvs) k dflt = Inr (case map_of kvs k of None \<Rightarrow> dflt | Some v \<Rightarrow> v)"
| "py_get v k dflt =
     Inl (AttributeError (squote (type_name v) @ '' object has no attribute '' @ squote ''get''))"

text \<open>\<^verbatim>\<open>d[k]\<close> with a string key.\<close>

fun py_getitem :: "json \<Rightarrow> string \<Rightarrow> exn + json" where
  "py_getitem (JObj kvs) k = (case map_of kvs k of None \<Rightarrow> Inl (KeyError k) | Some v \<Rightarrow> Inr v)"
| "py_getitem (JArr xs) k = Inl (TypeError ''list indices must be integers or slices, not str'')"
| "py_getitem (JStr s) k = Inl (TypeError (''string indices must be integers, not '' @ squote ''str''))"
| "py_getitem v k = Inl (TypeError (squote (type_name v) @ '' object is not subscriptable''))"

text \<open>
  \<^verbatim>\<open>d[k] = v\<close> on a dict replaces the value of a key in place and appends a new key
  at the end.
\<close>

fun dict_set :: "string \<Rightarrow> json \<Rightarrow> (string \<times> json) list \<Rightarrow> (string \<times> json) list" where
  "dict_set k v [] = [(k, v)]"
| "dict_set k v ((k', v') # kvs) =
     (if k' = k then (k, v) # kvs else (k', v') # dict_set k v kvs)"

fun py_setitem :: "json \<Rightarrow> string \<Rightarrow> json \<Rightarrow> exn + json" where
  "py_setitem (JObj kvs) k v = Inr (JObj (dict_set k v kvs))"
| "py_setitem (JArr xs) k v = Inl (TypeError ''list indices must be integers or slices, not str'')"
| "py_setitem u k v = Inl (TypeError (squote (type_name u) @ '' object does not support item assignment''))"

text \<open>\<^verbatim>\<open>for x in v\<close>: a list gives its items, a dict its keys, a string its characters.\<close>

fun py_iter :: "json \<Rightarrow> exn + json list" where
  "py_iter (JArr xs) = Inr xs"
| "py_iter (JObj kvs) = Inr (map (\<lambda>kv. JStr (fst kv)) kvs)"
| "py_iter (JStr s) = Inr (map (\<lambda>c. JStr [c]) s)"
| "py_iter v = Inl (TypeError (squote (type_name v) @ '' object is not iterable''))"

text \<open>
  \<^verbatim>\<open>str.lower()\<close> and \<^verbatim>\<open>str.isspace()\<close> on the characters a \<^typ>\<open>char\<close> can hold
  (code points below 256).
\<close>

definition lower_char :: "char \<Rightarrow> char" where
  "lower_char c =
     (let n = (of_char c :: nat) in
      if (65 \<le> n \<and> n \<le> 90) \<or> (192 \<le> n \<and> n \<le> 222 \<and> n \<noteq> 215)
      then char_of (n + 32) else c)"

definition lower :: "string \<Rightarrow> string" where
  "lower s = map lower_char s"

definition isspace :: "char \<Rightarrow> bool" where
  "isspace c =
     (let n = (of_char c :: nat) in
      (9 \<le> n \<and> n \<le> 13) \<or> (28 \<le> n \<and> n \<le> 32) \<or> n = 133 \<or> n = 160)"

definition strip :: "string \<Rightarrow> string" where
  "strip s = rev (dropWhile isspace (rev (dropWhile isspace s)))"

definition newline :: char where
  "newline = CHR 0x0A"

definition py_lines :: "string list \<Rightarrow> string" where
  "py_lines ls = concat (map (\<lambda>l. l @ [newline]) ls)"

subsection \<open>Effects\<close>

definition logger_error :: "string \<Rightarrow> world \<Rightarrow> world" where
  "logger_error msg w = w\<lparr>log := log w @ [EvLogError msg]\<rparr>"

definition datetime_now_iso :: "env \<Rightarrow> world \<Rightarrow> string \<times> world" where
  "datetime_now_iso env w = (isoformat_now env (ticks w), w\<lparr>ticks := Suc (ticks w)\<rparr>)"

text \<open>
  \<^verbatim>\<open>with tempfile.NamedTemporaryFile(delete=False, suffix=s) as f: f.write(content)\<close>.
  Creating the file can raise, and then there is no file. The write can raise, and then
  the file stays on disk (\<^verbatim>\<open>delete=False\<close>) with whatever reached it. Otherwise the
  file exists, holds the content and stays on disk when the block is left; the result is
  its name.
\<close>

definition named_temporary_file :: "env \<Rightarrow> string \<Rightarrow> bytes \<Rightarrow> world \<Rightarrow> (exn + string) \<times> world" where
  "named_temporary_file env sfx content w =
     (let temp_file_path = tmp_name env (tmp_seq w) sfx in
      case tmp_create_error env (tmp_seq w) sfx of
        Some e \<Rightarrow> (Inl e, w\<lparr>tmp_seq := Suc (tmp_seq w)\<rparr>)
      | None \<Rightarrow>
          (case tmp_write_error env (tmp_seq w) content of
             Some (e, partial) \<Rightarrow>
               (Inl e,
                w\<lparr>files := (files w)(temp_file_path \<mapsto> partial),
                  tmp_seq := Suc (tmp_seq w),
                  log := log w @ [EvStageFailed temp_file_path]\<rparr>)
           | None \<Rightarrow>
               (Inr temp_file_path,
                w\<lparr>files := (files w)(temp_file_path \<mapsto> content),
                  tmp_seq := Suc (tmp_seq w),
                  log := log w @ [EvStage temp_file_path]\<rparr>)))"

definition os_unlink :: "string \<Rightarrow> world \<Rightarrow> (exn + unit) \<times> world" where
  "os_unlink p w =
     (case files w p of
        None \<Rightarrow> (Inl (FileNotFoundError p), w)
      | Some content \<Rightarrow> (Inr (), w\<lparr>files := (files w)(p := None), log := log w @ [EvUnlink p]\<rparr>))"

text \<open>\<^verbatim>\<open>Path(file_name).suffix\<close> where \<^verbatim>\<open>file_name\<close> came out of the request.\<close>

definition suffix_of_value :: "env \<Rightarrow> json \<Rightarrow> exn + string" where
  "suffix_of_value env v =
     (case v of
        JStr s \<Rightarrow> Inr (path_suffix env s)
      | _ \<Rightarrow> Inl (TypeError (''expected str, bytes or os.PathLike object, not '' @ type_name v)))"

section \<open>RegulatoryAnalyzer\<close>

subsection \<open>parse_file\<close>

definition parse_pdf :: "env \<Rightarrow> string \<Rightarrow> world \<Rightarrow> exn + string" where
  "parse_pdf env file_path w =
     (case files w file_path of
        None \<Rightarrow> Inl (FileNotFoundError file_path)
      | Some content \<Rightarrow>
          (case pdf_pages env content of
             Inl e \<Rightarrow> Inl e
           | Inr pages \<Rightarrow> Inr (foldl (\<lambda>acc page. acc @ (page @ [newline])) [] pages)))"

definition parse_docx :: "env \<Rightarrow> string \<Rightarrow> world \<Rightarrow> exn + string" where
  "parse_docx env file_path w =
     (case files w file_path of
        None \<Rightarrow> Inl (FileNotFoundError file_path)
      | Some content \<Rightarrow>
          (case docx_paragraphs env content of
             Inl e \<Rightarrow> Inl e
           | Inr paragraphs \<Rightarrow> Inr (foldl (\<lambda>acc par. acc @ (par @ [newline])) [] paragraphs)))"

definition parse_txt :: "env \<Rightarrow> string \<Rightarrow> world \<Rightarrow> exn + string" where
  "parse_txt env file_path w =
     (case files w file_path of
        None \<Rightarrow> Inl (FileNotFoundError file_path)
      | Some content \<Rightarrow> utf8_decode env content)"

definition parse_dispatch :: "env \<Rightarrow> string \<Rightarrow> world \<Rightarrow> exn + string" where
  "parse_dispatch env file_path w =
     (if lower (path_suffix env file_path) = ''.pdf'' then parse_pdf env file_path w
      else if lower (path_suffix env file_path) = ''.docx'' then parse_docx env file_path w
      else if lower (path_suffix env file_path) = ''.txt'' then parse_txt env file_path w
      else Inl (ValueError (''Unsupported file type: '' @ path_suffix env file_path)))"

text \<open>
  \<open>parse_dispatch\<close> is the body of the \<^verbatim>\<open>try\<close>; the \<^verbatim>\<open>except\<close> clause logs the
  exception and raises it again.
\<close>

definition parse_file :: "env \<Rightarrow> string \<Rightarrow> world \<Rightarrow> (exn + string) \<times> world" where
  "parse_file env file_path w =
     (case parse_dispatch env file_path w of
        Inl e \<Rightarrow> (Inl e, logger_error (''Error parsing file '' @ file_path @ '': '' @ exn_str e) w)
      | Inr doc \<Rightarrow> (Inr doc, w))"

subsection \<open>analyze_document\<close>

definition prompt_head :: string where
  "prompt_head = [newline] @ py_lines
    [''        Please analyze this regulatory warning letter or notice for internal audit purposes. '',
     ''        '',
     ''        Provide a structured analysis in JSON format with the following sections:'',
     '''',
     ''        1. document_type: Type of regulatory document (warning letter, notice, citation, etc.)'',
     ''        2. regulatory_body: Which agency issued this (FDA, OSHA, EPA, etc.)'',
     ''        3. severity_level: High/Medium/Low based on language and consequences mentioned'',
     ''        4. key_violations: List of main violations or issues identified'',
     ''        5. compliance_areas: Specific regulatory areas affected (GMP, safety, environmental, etc.)'',
     ''        6. deadlines: Any response or corrective action deadlines mentioned'',
     ''        7. potential_penalties: Financial penalties or other consequences mentioned'',
     ''        8. audit_focus_areas: Specific areas internal audit should prioritize based on this notice'',
     ''        9. recommended_actions: Immediate and long-term actions to address issues'',
     ''        10. risk_assessment: Overall risk level and potential business impact'',
     ''        11. similar_patterns: Any patterns that might indicate systemic issues'',
     ''        12. executive_summary: 2-3 sentence summary for leadership'',
     '''',
     ''        Document text:'']
    @ ''        ''"

definition prompt_tail :: string where
  "prompt_tail = [newline] @ py_lines
    [''        '',
     ''        Respond only with valid JSON.'']
    @ ''        ''"

text \<open>The f-string: the slice \<^verbatim>\<open>document_text[:15000]\<close> between the two fixed parts.\<close>

definition analysis_prompt :: "string \<Rightarrow> string" where
  "analysis_prompt document_text = prompt_head @ take 15000 document_text @ prompt_tail"

text \<open>
  The body of the \<^verbatim>\<open>try\<close>. The prompt goes out; the reply is parsed; the right-hand
  side \<^verbatim>\<open>datetime.now().isoformat()\<close> is evaluated before the first item assignment,
  so the clock is read even when the parsed value takes no item.
\<close>

definition analyze_try :: "env \<Rightarrow> string \<Rightarrow> world \<Rightarrow> (exn + json) \<times> world" where
  "analyze_try env document_text w =
     (let w1 = w\<lparr>log := log w @ [EvLLM (analysis_prompt document_text)]\<rparr> in
      case messages_create env (analysis_prompt document_text) of
        Inl e \<Rightarrow> (Inl e, w1)
      | Inr reply \<Rightarrow>
          (case json_loads env reply of
             Inl e \<Rightarrow> (Inl e, w1)
           | Inr analysis_result \<Rightarrow>
               (let (now, w2) = datetime_now_iso env w1 in
                case py_setitem analysis_result ''analysis_timestamp'' (JStr now) of
                  Inl e \<Rightarrow> (Inl e, w2)
                | Inr r1 \<Rightarrow>
                    (case py_setitem r1 ''document_length'' (JInt (int (length document_text))) of
                       Inl e \<Rightarrow> (Inl e, w2)
                     | Inr r2 \<Rightarrow> (Inr r2, w2)))))"

definition analyze_document :: "env \<Rightarrow> string \<Rightarrow> world \<Rightarrow> (exn + json) \<times> world" where
  "analyze_document env document_text w =
     (case analyze_try env document_text w of
        (Inl e, w') \<Rightarrow> (Inl e, logger_error (''Error in document analysis: '' @ exn_str e) w')
      | (Inr r, w') \<Rightarrow> (Inr r, w'))"

section \<open>The HTTP handlers\<close>

text \<open>
  A request as the handlers see it: the path and method Flask routes on, and what
  \<^verbatim>\<open>request.get_json()\<close> gives (Python's \<^verbatim>\<open>None\<close> is \<open>JNull\<close>; the call may
  raise). A response is a JSON body with a status (\<^verbatim>\<open>jsonify(...), 400\<close>), a rendered
  page, or a response Flask builds itself.
\<close>

record request =
  url_path :: string
  http_method :: string
  get_json :: "exn + json"

datatype response =
    JsonResponse json nat
  | HtmlResponse string nat
  | FrameworkResponse nat


text \<open>The shape every error reply of the two handlers has.\<close>

definition error_response :: "string \<Rightarrow> nat \<Rightarrow> response" where
  "error_response msg code = JsonResponse (JObj [(''success'', JBool False), (''error'', JStr msg)]) code"

subsection \<open>POST /analyze\<close>

text \<open>
  The inner \<^verbatim>\<open>try\<close> of the handler, entered once the temporary file exists:
  extraction, the check for blank text, the analysis, the success reply.
\<close>

definition analyze_staged :: "env \<Rightarrow> json \<Rightarrow> string \<Rightarrow> world \<Rightarrow> (exn + response) \<times> world" where
  "analyze_staged env file_name temp_file_path w =
     (case parse_file env temp_file_path w of
        (Inl e, w1) \<Rightarrow> (Inl e, w1)
      | (Inr document_text, w1) \<Rightarrow>
          if strip document_text = []
          then (Inr (error_response ''No text could be extracted from the document'' 400), w1)
          else
            (case analyze_document env document_text w1 of
               (Inl e, w2) \<Rightarrow> (Inl e, w2)
             | (Inr analysis_result, w2) \<Rightarrow>
                 (let (now, w3) = datetime_now_iso env w2 in
                  (Inr (JsonResponse
                     (JObj [(''success'', JBool True),
                            (''analysis'', analysis_result),
                            (''processedAt'', JStr now),
                            (''fileName'', file_name),
                            (''documentLength'', JInt (int (length document_text)))])
                     200),
                   w3))))"

text \<open>
  The \<^verbatim>\<open>finally\<close> of the handler: \<^verbatim>\<open>os.unlink\<close> with every exception swallowed.
\<close>

definition unlink_quietly :: "string \<Rightarrow> world \<Rightarrow> world" where
  "unlink_quietly p w = snd (os_unlink p w)"

definition analyze_route_try :: "env \<Rightarrow> request \<Rightarrow> world \<Rightarrow> (exn + response) \<times> world" where
  "analyze_route_try env req w =
     (case get_json req of
        Inl e \<Rightarrow> (Inl e, w)
      | Inr data \<Rightarrow>
          if \<not> truthy data then (Inr (error_response ''No JSON data provided'' 400), w)
          else
            (case py_get data ''fileContent'' JNull of
               Inl e \<Rightarrow> (Inl e, w)
             | Inr file_content_b64 \<Rightarrow>
                 (case py_get data ''fileName'' JNull of
                    Inl e \<Rightarrow> (Inl e, w)
                  | Inr file_name \<Rightarrow>
                      if \<not> truthy file_content_b64 \<or> \<not> truthy file_name
                      then (Inr (error_response ''fileContent and fileName are required'' 400), w)
                      else
                        (case b64decode env file_content_b64 of
                           Inl e \<Rightarrow>
                             (Inr (error_response (''Invalid base64 content: '' @ exn_str e) 400), w)
                         | Inr file_content \<Rightarrow>
                             (case suffix_of_value env file_name of
                                Inl e \<Rightarrow> (Inl e, w)
                              | Inr sfx \<Rightarrow>
                                  (case named_temporary_file env sfx file_content w of
                                     (Inl e, w1) \<Rightarrow> (Inl e, w1)
                                   | (Inr temp_file_path, w1) \<Rightarrow>
                                       (let (r, w2) = analyze_staged env file_name temp_file_path w1
                                        in (r, unlink_quietly temp_file_path w2))))))))"

text \<open>The outer \<^verbatim>\<open>except Exception\<close>: log, and answer 500.\<close>

definition analyze_document_route :: "env \<Rightarrow> request \<Rightarrow> world \<Rightarrow> response \<times> world" where
  "analyze_document_route env req w =
     (case analyze_route_try env req w of
        (Inr resp, w') \<Rightarrow> (resp, w')
      | (Inl e, w') \<Rightarrow>
          (error_response (''Internal server error: '' @ exn_str e) 500,
           logger_error (''Error in analyze_document: '' @ exn_str e) w'))"

subsection \<open>POST /batch-analyze\<close>

text \<open>
  The inner \<^verbatim>\<open>try\<close> of one turn of the loop, entered once the temporary file exists:
  extraction, analysis, and the success record appended to \<^verbatim>\<open>results\<close>. The result
  is the exception that leaves the block (if any), the \<^verbatim>\<open>results\<close> list as it
  stands, and the world.
\<close>

definition batch_staged :: "env \<Rightarrow> json \<Rightarrow> string \<Rightarrow> json list \<Rightarrow> world \<Rightarrow> (exn + unit) \<times> json list \<times> world" where
  "batch_staged env file_name temp_file_path results w =
     (case parse_file env temp_file_path w of
        (Inl e, w') \<Rightarrow> (Inl e, results, w')
      | (Inr document_text, w') \<Rightarrow>
          (case analyze_document env document_text w' of
             (Inl e, w'') \<Rightarrow> (Inl e, results, w'')
           | (Inr analysis_result, w'') \<Rightarrow>
               (Inr (),
                results @ [JObj [(''success'', JBool True),
                                 (''fileName'', file_name),
                                 (''analysis'', analysis_result)]],
                w'')))"

text \<open>
  One turn of the loop, up to the \<^verbatim>\<open>except\<close>. The \<^verbatim>\<open>finally\<close> runs
  \<^verbatim>\<open>os.unlink\<close> unguarded: an exception of the unlink replaces the outcome of the
  block.
\<close>

definition batch_doc_try :: "env \<Rightarrow> json \<Rightarrow> json list \<Rightarrow> world \<Rightarrow> (exn + unit) \<times> json list \<times> world" where
  "batch_doc_try env doc results w =
     (case py_getitem doc ''fileContent'' of
        Inl e \<Rightarrow> (Inl e, results, w)
      | Inr content_b64 \<Rightarrow>
          (case b64decode env content_b64 of
             Inl e \<Rightarrow> (Inl e, results, w)
           | Inr file_content \<Rightarrow>
               (case py_getitem doc ''fileName'' of
                  Inl e \<Rightarrow> (Inl e, results, w)
                | Inr file_name \<Rightarrow>
                    (case suffix_of_value env file_name of
                       Inl e \<Rightarrow> (Inl e, results, w)
                     | Inr sfx \<Rightarrow>
                         (case named_temporary_file env sfx file_content w of
                            (Inl e, w1) \<Rightarrow> (Inl e, results, w1)
                          | (Inr temp_file_path, w1) \<Rightarrow>
                              (let (r, results', w2) = batch_staged env file_name temp_file_path results w1
                               in (case os_unlink temp_file_path w2 of
                                     (Inl e, w3) \<Rightarrow> (Inl e, results', w3)
                                   | (Inr u, w3) \<Rightarrow> (r, results', w3))))))))"

text \<open>
  The turn with its \<^verbatim>\<open>except Exception as e\<close>: the clause appends the error record;
  \<^verbatim>\<open>doc.get('fileName', 'unknown')\<close> inside the clause can itself raise, and then the
  exception leaves the loop.
\<close>

definition batch_doc :: "env \<Rightarrow> json \<Rightarrow> json list \<Rightarrow> world \<Rightarrow> (exn + json list) \<times> world" where
  "batch_doc env doc results w =
     (case batch_doc_try env doc results w of
        (Inr u, results', w') \<Rightarrow> (Inr results', w')
      | (Inl e, results', w') \<Rightarrow>
          (case py_get doc ''fileName'' (JStr ''unknown'') of
             Inl e' \<Rightarrow> (Inl e', w')
           | Inr name \<Rightarrow>
               (Inr (results' @ [JObj [(''success'', JBool False),
                                       (''fileName'', name),
                                       (''error'', JStr (exn_str e))]]),
                w')))"

fun batch_loop :: "env \<Rightarrow> json list \<Rightarrow> json list \<Rightarrow> world \<Rightarrow> (exn + json list) \<times> world" where
  "batch_loop env [] results w = (Inr results, w)"
| "batch_loop env (doc # docs) results w =
     (case batch_doc env doc results w of
        (Inl e, w') \<Rightarrow> (Inl e, w')
      | (Inr results', w') \<Rightarrow> batch_loop env docs results' w')"

text \<open>\<^verbatim>\<open>len(v)\<close> for the values that can be iterated.\<close>

fun py_len :: "json \<Rightarrow> exn + nat" where
  "py_len (JArr xs) = Inr (length xs)"
| "py_len (JObj kvs) = Inr (length kvs)"
| "py_len (JStr s) = Inr (length s)"
| "py_len v = Inl (TypeError (''object of type '' @ squote (type_name v) @ '' has no len()''))"

definition batch_try :: "env \<Rightarrow> request \<Rightarrow> world \<Rightarrow> (exn + response) \<times> world" where
  "batch_try env req w =
     (case get_json req of
        Inl e \<Rightarrow> (Inl e, w)
      | Inr data \<Rightarrow>
          (case py_get data ''documents'' (JArr []) of
             Inl e \<Rightarrow> (Inl e, w)
           | Inr documents \<Rightarrow>
               if \<not> truthy documents then (Inr (error_response ''No documents provided'' 400), w)
               else
                 (case py_iter documents of
                    Inl e \<Rightarrow> (Inl e, w)
                  | Inr docs \<Rightarrow>
                      (case batch_loop env docs [] w of
                         (Inl e, w') \<Rightarrow> (Inl e, w')
                       | (Inr results, w') \<Rightarrow>
                           (case py_len documents of
                              Inl e \<Rightarrow> (Inl e, w')
                            | Inr n \<Rightarrow>
                                (let (now, w'') = datetime_now_iso env w' in
                                 (Inr (JsonResponse
                                    (JObj [(''success'', JBool True),
                                           (''totalDocuments'', JInt (int n)),
                                           (''results'', JArr results),
                                           (''processedAt'', JStr now)])
                                    200),
                                  w'')))))))"

definition batch_analyze :: "env \<Rightarrow> request \<Rightarrow> world \<Rightarrow> response \<times> world" where
  "batch_analyze env req w =
     (case batch_try env req w of
        (Inr resp, w') \<Rightarrow> (resp, w')
      | (Inl e, w') \<Rightarrow>
          (error_response (''Internal server error: '' @ exn_str e) 500,
           logger_error (''Error in batch_analyze: '' @ exn_str e) w'))"

subsection \<open>The other views, the error handlers and the dispatch\<close>

definition home :: "env \<Rightarrow> world \<Rightarrow> response \<times> world" where
  "home env w = (HtmlResponse (render_home env (strftime_now env (ticks w))) 200, w\<lparr>ticks := Suc (ticks w)\<rparr>)"

definition health_check :: "env \<Rightarrow> world \<Rightarrow> response \<times> world" where
  "health_check env w =
     (let (now, w') = datetime_now_iso env w in
      (JsonResponse
         (JObj [(''status'', JStr ''healthy''),
                (''timestamp'', JStr now),
                (''service'', JStr ''Regulatory Document Analyzer''),
                (''version'', JStr ''1.0.0'')])
         200,
       w'))"

definition test_endpoint :: "env \<Rightarrow> request \<Rightarrow> world \<Rightarrow> (exn + response) \<times> world" where
  "test_endpoint env req w =
     (if http_method req = ''GET''
      then (let (now, w') = datetime_now_iso env w in
            (Inr (JsonResponse
               (JObj [(''message'', JStr ''Test endpoint is working''),
                      (''method'', JStr ''GET''),
                      (''timestamp'', JStr now)])
               200),
             w'))
      else (case get_json req of
              Inl e \<Rightarrow> (Inl e, w)
            | Inr data \<Rightarrow>
                (let (now, w') = datetime_now_iso env w in
                 (Inr (JsonResponse
                    (JObj [(''message'', JStr ''Test endpoint received POST data''),
                           (''data'', data),
                           (''timestamp'', JStr now)])
                    200),
                  w'))))"

definition not_found :: response where
  "not_found =
     JsonResponse
       (JObj [(''error'', JStr ''Endpoint not found''),
              (''available_endpoints'',
               JArr [JStr ''/analyze'', JStr ''/batch-analyze'', JStr ''/health'', JStr ''/test''])])
       404"

definition internal_error :: response where
  "internal_error =
     JsonResponse
       (JObj [(''error'', JStr ''Internal server error''),
              (''message'', JStr ''Something went wrong on the server'')])
       500"

text \<open>
  What Flask does with an exception that leaves a view or the URL matching: the two
  registered handlers answer a 404 and a 500 (any exception that is not an HTTP exception
  counts as a 500); every other HTTP exception becomes Flask's own response.
\<close>

fun handle_exception :: "exn \<Rightarrow> response" where
  "handle_exception (HTTPException code m) =
     (if code = 404 then not_found else if code = 500 then internal_error
      else FrameworkResponse code)"
| "handle_exception e = internal_error"

definition dispatch_request :: "env \<Rightarrow> request \<Rightarrow> world \<Rightarrow> response \<times> world" where
  "dispatch_request env req w =
     (case url_match env (url_path req) (http_method req) of
        Inl e \<Rightarrow> (handle_exception e, w)
      | Inr Home \<Rightarrow> home env w
      | Inr AnalyzeDocument \<Rightarrow> analyze_document_route env req w
      | Inr BatchAnalyze \<Rightarrow> batch_analyze env req w
      | Inr HealthCheck \<Rightarrow> health_check env w
      | Inr TestEndpoint \<Rightarrow>
          (case test_endpoint env req w of
             (Inl e, w') \<Rightarrow> (handle_exception e, w')
           | (Inr resp, w') \<Rightarrow> (resp, w')))"

section \<open>Observations on a run\<close>

text \<open>The prompts that went to the model, in order.\<close>

fun prompts_sent :: "event list \<Rightarrow> string list" where
  "prompts_sent [] = []"
| "prompts_sent (EvLLM p # es) = p # prompts_sent es"
| "prompts_sent (e # es) = prompts_sent es"


text \<open>An event that leaves the disk alone.\<close>

fun quiet :: "event \<Rightarrow> bool" where
  "quiet (EvLLM prompt) = True"
| "quiet (EvLogError m) = True"
| "quiet e = False"

text \<open>
  \<open>released_in_turn cur es\<close> reads a record of effects with the staged file \<open>cur\<close> in
  hand (\<open>None\<close>: no file is staged). It holds when the files are staged one at a time:
  a file is staged only when none is, the next thing to happen to the disk is the unlink
  of that very file, the model is called only while a file is staged, and no file is
  staged when the record ends.
\<close>

fun released_in_turn :: "string option \<Rightarrow> event list \<Rightarrow> bool" where
  "released_in_turn None [] = True"
| "released_in_turn (Some p) [] = False"
| "released_in_turn None (EvStage p # es) = released_in_turn (Some p) es"
| "released_in_turn (Some q) (EvStage p # es) = False"
| "released_in_turn None (EvUnlink p # es) = False"
| "released_in_turn (Some q) (EvUnlink p # es) = (p = q \<and> released_in_turn None es)"
| "released_in_turn None (EvLLM prompt # es) = False"
| "released_in_turn (Some q) (EvLLM prompt # es) = released_in_turn (Some q) es"
| "released_in_turn None (EvStageFailed p # es) = released_in_turn None es"
| "released_in_turn (Some q) (EvStageFailed p # es) = False"
| "released_in_turn cur (EvLogError m # es) = released_in_turn cur es"

text \<open>
  \<open>cleans_up w w'\<close>: going from \<open>w\<close> to \<open>w'\<close>, the temporary files that were created
  and written were staged one at a time and each was unlinked again before anything else
  happened to the disk, every call to the model was made while the file of the document
  was staged, and a file is on disk afterwards only if it was there before with the same
  content or if it is a temporary file whose write raised.
\<close>

definition cleans_up :: "world \<Rightarrow> world \<Rightarrow> bool" where
  "cleans_up w w' \<longleftrightarrow>
     (\<exists>es. log w' = log w @ es \<and> released_in_turn None es
        \<and> (\<forall>q. files w' q = None \<or> files w' q = files w q \<or> EvStageFailed q \<in> set es))"

section \<open>A concrete environment\<close>

text \<open>
  One environment to run the model in: file names are plain names, temporary files are
  always created and written, the only decodable uploads are three small ones, no upload
  is a readable PDF or DOCX, and the model always answers with the same JSON object of the
  twelve requested sections.
\<close>

definition the_requested_keys :: "string list" where
  "the_requested_keys =
     [''document_type'', ''regulatory_body'', ''severity_level'', ''key_violations'',
      ''compliance_areas'', ''deadlines'', ''potential_penalties'', ''audit_focus_areas'',
      ''recommended_actions'', ''risk_assessment'', ''similar_patterns'', ''executive_summary'']"

definition demo_suffix :: "string \<Rightarrow> string" where
  "demo_suffix name =
     (let r = takeWhile (\<lambda>c. c \<noteq> CHR ''.'') (rev name) in
      if length r = length name \<or> r = [] \<or> Suc (length r) = length name then []
      else CHR ''.'' # rev r)"

definition demo_b64decode :: "json \<Rightarrow> exn + bytes" where
  "demo_b64decode v =
     (if v = JStr ''aGVsbG8='' then Inr [0x68, 0x65, 0x6C, 0x6C, 0x6F]
      else if v = JStr ''ICAK'' then Inr [0x20, 0x20, 0x0A]
      else if v = JStr [] then Inr []
      else Inl (LibError ''Incorrect padding''))"

definition demo_utf8_decode :: "bytes \<Rightarrow> exn + string" where
  "demo_utf8_decode bs =
     (if bs = [0x68, 0x65, 0x6C, 0x6C, 0x6F] then Inr ''hello''
      else if bs = [0x20, 0x20, 0x0A] then Inr [CHR 0x20, CHR 0x20, CHR 0x0A]
      else if bs = [] then Inr []
      else Inl (LibError ''invalid start byte''))"

definition demo_object :: json where
  "demo_object = JObj (map (\<lambda>k. (k, JStr ''n/a'')) the_requested_keys)"

definition demo_reply :: string where
  "demo_reply = ''{...the twelve sections...}''"

definition demo_json_loads :: "string \<Rightarrow> exn + json" where
  "demo_json_loads s =
     (if s = demo_reply then Inr demo_object
      else if s = ''[]'' then Inr (JArr [])
      else if s = ''{}'' then Inr (JObj [])
      else Inl (LibError ''Expecting value: line 1 column 1 (char 0)''))"

text \<open>The URL map of the five \<^verbatim>\<open>@app.route\<close> decorators, for plain paths.\<close>

definition demo_url_match :: "string \<Rightarrow> string \<Rightarrow> exn + endpoint" where
  "demo_url_match p m =
     (case map_of
        [(''/'', (Home, [''GET'', ''HEAD''])),
         (''/analyze'', (AnalyzeDocument, [''POST''])),
         (''/batch-analyze'', (BatchAnalyze, [''POST''])),
         (''/health'', (HealthCheck, [''GET'', ''HEAD''])),
         (''/test'', (TestEndpoint, [''GET'', ''HEAD'', ''POST'']))] p of
        None \<Rightarrow> Inl (HTTPException 404 ''404 Not Found: The requested URL was not found on the server.'')
      | Some (ep, ms) \<Rightarrow>
          if m \<in> set ms then Inr ep
          else Inl (HTTPException 405 ''405 Method Not Allowed: The method is not allowed for the requested URL.''))"

definition demo :: env where
  "demo =
     \<lparr>path_suffix = demo_suffix,
      tmp_name = (\<lambda>n s. ''/tmp/tmp'' @ replicate n (CHR ''x'') @ s),
      tmp_create_error = (\<lambda>n s. None),
      tmp_write_error = (\<lambda>n content. None),
      b64decode = demo_b64decode,
      pdf_pages = (\<lambda>bs. Inl (LibError ''EOF marker not found'')),
      docx_paragraphs = (\<lambda>bs. Inl (LibError ''File is not a zip file'')),
      utf8_decode = demo_utf8_decode,
      messages_create = (\<lambda>prompt. Inr demo_reply),
      json_loads = demo_json_loads,
      isoformat_now = (\<lambda>t. ''2025-01-01T00:00:0'' @ replicate (Suc t) (CHR ''0'')),
      strftime_now = (\<lambda>t. ''2025-01-01 00:00:00 UTC''),
      render_home = (\<lambda>t. ''<html>'' @ t @ ''</html>''),
      url_match = demo_url_match\<rparr>"

definition empty_world :: world where
  "empty_world = \<lparr>files = (\<lambda>p. None), tmp_seq = 0, ticks = 0, log = []\<rparr>"

definition post_json :: "string \<Rightarrow> json \<Rightarrow> request" where
  "post_json p data = \<lparr>url_path = p, http_method = ''POST'', get_json = Inr data\<rparr>"

section \<open>Basic facts about the model\<close>

lemma prompts_sent_append: "prompts_sent (xs @ ys) = prompts_sent xs @ prompts_sent ys"
  by (induction xs rule: prompts_sent.induct) simp_all

lemma dict_set_fresh: "k \<notin> fst ` set kvs \<Longrightarrow> dict_set k v kvs = kvs @ [(k, v)]"
  by (induction kvs) auto

lemma dict_set_lookup: "map_of (dict_set k v kvs) = (map_of kvs)(k \<mapsto> v)"
  by (induction kvs) (auto simp: fun_eq_iff)

lemma analyze_try_log:
  "log (snd (analyze_try env doc w)) = log w @ [EvLLM (analysis_prompt doc)]"
  by (simp add: analyze_try_def Let_def datetime_now_iso_def split: sum.splits prod.splits)

lemma analyze_try_files: "files (snd (analyze_try env doc w)) = files w"
  by (simp add: analyze_try_def Let_def datetime_now_iso_def split: sum.splits prod.splits)

lemma analyze_document_fst:
  "fst (analyze_document env doc w) = fst (analyze_try env doc w)"
  by (simp add: analyze_document_def split: prod.splits sum.splits)

lemma analyze_document_files: "files (snd (analyze_document env doc w)) = files w"
proof (cases "analyze_try env doc w")
  case (Pair r w')
  then have "files w' = files w"
    using analyze_try_files [of env doc w] by simp
  with Pair show ?thesis
    by (cases r) (simp_all add: analyze_document_def logger_error_def)
qed

lemma analyze_document_prompts:
  "prompts_sent (log (snd (analyze_document env doc w))) = prompts_sent (log w) @ [analysis_prompt doc]"
proof (cases "analyze_try env doc w")
  case (Pair r w')
  then have "log w' = log w @ [EvLLM (analysis_prompt doc)]"
    using analyze_try_log [of env doc w] by simp
  with Pair show ?thesis
    by (cases r) (simp_all add: analyze_document_def logger_error_def prompts_sent_append)
qed

lemma analyze_try_object:
  assumes "messages_create env (analysis_prompt doc) = Inr reply"
    and "json_loads env reply = Inr (JObj kvs)"
  shows "fst (analyze_try env doc w) =
      Inr (JObj (dict_set ''document_length'' (JInt (int (length doc)))
             (dict_set ''analysis_timestamp'' (JStr (isoformat_now env (ticks w))) kvs)))"
  using assms by (simp add: analyze_try_def Let_def datetime_now_iso_def)

lemma analyze_document_length:
  assumes "fst (analyze_document env doc w) = Inr r"
  shows "py_getitem r ''document_length'' = Inr (JInt (int (length doc)))"
proof -
  from assms have "fst (analyze_try env doc w) = Inr r"
    by (simp add: analyze_document_fst)
  then obtain v where "py_setitem v ''document_length'' (JInt (int (length doc))) = Inr r"
    by (auto simp: analyze_try_def Let_def datetime_now_iso_def split: sum.splits prod.splits)
  then show ?thesis
    by (cases v) (auto simp: dict_set_lookup)
qed

lemma demo_analysis:
  "fst (analyze_document demo doc empty_world) =
     Inr (JObj (map (\<lambda>k. (k, JStr ''n/a'')) the_requested_keys @
            [(''analysis_timestamp'', JStr ''2025-01-01T00:00:00''),
             (''document_length'', JInt (int (length doc)))]))"
  by (simp add: analyze_document_fst analyze_try_def Let_def datetime_now_iso_def demo_def
      demo_json_loads_def demo_object_def the_requested_keys_def empty_world_def)

section \<open>The analysis step\<close>

text \<open>
  C1. Whatever the document text, the prompt that \<open>analyze_document\<close> sends to the model
  is the fixed instruction with the first 15000 characters of the text in it and nothing
  of the rest; and when the analysis returns a result, its \<open>document_length\<close> entry is
  the length of the whole text, also when the text is longer than 15000 characters.
\<close>

theorem analyze_truncates_prompt_keeps_length:
  "prompts_sent (log (snd (analyze_document env doc w)))
     = prompts_sent (log w) @ [prompt_head @ take 15000 doc @ prompt_tail]
   \<and> (\<forall>r. fst (analyze_document env doc w) = Inr r \<longrightarrow>
          py_getitem r ''document_length'' = Inr (JInt (int (length doc))))"
  by (simp add: analyze_document_prompts analysis_prompt_def analyze_document_length)

theorem analyze_truncates_prompt_keeps_length_witness:
  "fst (analyze_document demo (replicate 15001 (CHR ''a'')) empty_world) =
     Inr (JObj (map (\<lambda>k. (k, JStr ''n/a'')) the_requested_keys @
            [(''analysis_timestamp'', JStr ''2025-01-01T00:00:00''),
             (''document_length'', JInt 15001)]))
   \<and> py_getitem (JObj (map (\<lambda>k. (k, JStr ''n/a'')) the_requested_keys @
            [(''analysis_timestamp'', JStr ''2025-01-01T00:00:00''),
             (''document_length'', JInt 15001)])) ''document_length'' = Inr (JInt 15001)
   \<and> prompts_sent (log (snd (analyze_document demo (replicate 15001 (CHR ''a'')) empty_world)))
       = [prompt_head @ replicate 15000 (CHR ''a'') @ prompt_tail]"
proof -
  let ?doc = "replicate 15001 (CHR ''a'')"
  let ?r = "JObj (map (\<lambda>k. (k, JStr ''n/a'')) the_requested_keys @
            [(''analysis_timestamp'', JStr ''2025-01-01T00:00:00''),
             (''document_length'', JInt 15001)])"
  have run: "fst (analyze_document demo ?doc empty_world) = Inr ?r"
    using demo_analysis [of ?doc] by simp
  have sent: "prompts_sent (log (snd (analyze_document demo ?doc empty_world)))
       = prompts_sent (log empty_world) @ [prompt_head @ take 15000 ?doc @ prompt_tail]"
    and len: "py_getitem ?r ''document_length'' = Inr (JInt (int (length ?doc)))"
    using analyze_truncates_prompt_keeps_length [of demo ?doc empty_world] run by blast+
  from sent have "prompts_sent (log (snd (analyze_document demo ?doc empty_world)))
       = [prompt_head @ replicate 15000 (CHR ''a'') @ prompt_tail]"
    by (simp add: empty_world_def)
  with run len show ?thesis by simp
qed

text \<open>
  C2. When the model's reply parses to a JSON object whose keys are the twelve requested
  sections, \<open>analyze_document\<close> returns that object with two entries appended, the
  timestamp read from the clock and the length of the text, and every one of the twelve
  sections keeps its value.
\<close>

theorem analyze_returns_reply_plus_two_keys:
  assumes "messages_create env (analysis_prompt doc) = Inr reply"
    and "json_loads env reply = Inr (JObj kvs)"
    and "set (map fst kvs) = set the_requested_keys"
  shows "fst (analyze_document env doc w) =
           Inr (JObj (kvs @ [(''analysis_timestamp'', JStr (isoformat_now env (ticks w))),
                             (''document_length'', JInt (int (length doc)))]))
         \<and> (\<forall>k \<in> set the_requested_keys.
               py_getitem (JObj (kvs @ [(''analysis_timestamp'', JStr (isoformat_now env (ticks w))),
                                        (''document_length'', JInt (int (length doc)))])) k
               = py_getitem (JObj kvs) k
               \<and> (\<exists>v. py_getitem (JObj kvs) k = Inr v))"
proof -
  have keys: "fst ` set kvs = set the_requested_keys"
    using assms(3) by simp
  have ts: "''analysis_timestamp'' \<notin> fst ` set kvs"
    unfolding keys by (simp add: the_requested_keys_def)
  have dl: "''document_length'' \<notin> fst ` set (kvs @ [(''analysis_timestamp'', JStr (isoformat_now env (ticks w)))])"
    using keys by (simp add: the_requested_keys_def)
  have "fst (analyze_document env doc w) =
      Inr (JObj (dict_set ''document_length'' (JInt (int (length doc)))
             (dict_set ''analysis_timestamp'' (JStr (isoformat_now env (ticks w))) kvs)))"
    using analyze_try_object [OF assms(1,2)] by (simp add: analyze_document_fst)
  then have first: "fst (analyze_document env doc w) =
           Inr (JObj (kvs @ [(''analysis_timestamp'', JStr (isoformat_now env (ticks w))),
                             (''document_length'', JInt (int (length doc)))]))"
    using dict_set_fresh [OF ts] dict_set_fresh [OF dl] by simp
  have second: "py_getitem (JObj (kvs @ extra)) k = py_getitem (JObj kvs) k
               \<and> (\<exists>v. py_getitem (JObj kvs) k = Inr v)"
    if "k \<in> set the_requested_keys" for k extra
  proof -
    from that keys have "k \<in> fst ` set kvs" by simp
    then obtain v where "map_of kvs k = Some v"
      by (metis domD dom_map_of_conv_image_fst)
    then show ?thesis by (simp add: map_add_Some_iff)
  qed
  from first second show ?thesis by blast
qed

theorem analyze_returns_reply_plus_two_keys_witness:
  "fst (analyze_document demo ''hello'' empty_world) =
     Inr (JObj (map (\<lambda>k. (k, JStr ''n/a'')) the_requested_keys @
            [(''analysis_timestamp'', JStr ''2025-01-01T00:00:00''),
             (''document_length'', JInt 5)]))"
proof -
  have a: "messages_create demo (analysis_prompt ''hello'') = Inr demo_reply"
    by (simp add: demo_def)
  have b: "json_loads demo demo_reply = Inr (JObj (map (\<lambda>k. (k, JStr ''n/a'')) the_requested_keys))"
    by (simp add: demo_def demo_json_loads_def demo_object_def)
  have c: "set (map fst (map (\<lambda>k. (k, JStr ''n/a'')) the_requested_keys)) = set the_requested_keys"
    by (simp add: comp_def)
  from analyze_returns_reply_plus_two_keys [OF a b c, of empty_world]
  show ?thesis by (simp add: demo_def empty_world_def)
qed

section \<open>Extraction\<close>

lemma parse_file_fst: "fst (parse_file env p w) = parse_dispatch env p w"
  by (simp add: parse_file_def split: sum.splits)

lemma parse_file_files: "files (snd (parse_file env p w)) = files w"
  by (simp add: parse_file_def logger_error_def split: sum.splits)

lemma parse_dispatch_same_file:
  assumes "lower (path_suffix env p) = lower (path_suffix env q)"
    and "files w p = Some content" and "files w' q = Some content"
  shows "parse_dispatch env p w = Inr doc \<longleftrightarrow> parse_dispatch env q w' = Inr doc"
  using assms by (simp add: parse_dispatch_def parse_pdf_def parse_docx_def parse_txt_def)

text \<open>
  C6. \<open>parse_file\<close> looks only at the lower-cased suffix of the path. For \<open>.pdf\<close>,
  \<open>.docx\<close> and \<open>.txt\<close> (in any mix of cases) the outcome is that of the PDF, DOCX
  or text reader; for every other suffix the outcome is the exception
  \<^verbatim>\<open>Unsupported file type: \<close> followed by the suffix as the path has it, and no text.
  Two paths whose suffixes differ only in case and that hold the same bytes give the same
  text.
\<close>

theorem parse_file_dispatches_on_suffix:
  "(lower (path_suffix env p) \<notin> {''.pdf'', ''.docx'', ''.txt''} \<longrightarrow>
      fst (parse_file env p w) = Inl (ValueError (''Unsupported file type: '' @ path_suffix env p))
      \<and> exn_str (ValueError (''Unsupported file type: '' @ path_suffix env p))
          = ''Unsupported file type: '' @ path_suffix env p)
   \<and> (lower (path_suffix env p) = ''.pdf'' \<longrightarrow> fst (parse_file env p w) = parse_pdf env p w)
   \<and> (lower (path_suffix env p) = ''.docx'' \<longrightarrow> fst (parse_file env p w) = parse_docx env p w)
   \<and> (lower (path_suffix env p) = ''.txt'' \<longrightarrow> fst (parse_file env p w) = parse_txt env p w)
   \<and> (\<forall>q content doc.
         lower (path_suffix env q) = lower (path_suffix env p) \<and>
         files w p = Some content \<and> files w q = Some content \<longrightarrow>
         (fst (parse_file env p w) = Inr doc \<longleftrightarrow> fst (parse_file env q w) = Inr doc))"
proof -
  have same: "fst (parse_file env p w) = Inr doc \<longleftrightarrow> fst (parse_file env q w) = Inr doc"
    if "lower (path_suffix env q) = lower (path_suffix env p)"
      and "files w p = Some content" and "files w q = Some content" for q content doc
    using parse_dispatch_same_file [of env p q w content w doc] that
    by (simp add: parse_file_fst)
  have rest: "(lower (path_suffix env p) \<notin> {''.pdf'', ''.docx'', ''.txt''} \<longrightarrow>
      fst (parse_file env p w) = Inl (ValueError (''Unsupported file type: '' @ path_suffix env p))
      \<and> exn_str (ValueError (''Unsupported file type: '' @ path_suffix env p))
          = ''Unsupported file type: '' @ path_suffix env p)
   \<and> (lower (path_suffix env p) = ''.pdf'' \<longrightarrow> fst (parse_file env p w) = parse_pdf env p w)
   \<and> (lower (path_suffix env p) = ''.docx'' \<longrightarrow> fst (parse_file env p w) = parse_docx env p w)
   \<and> (lower (path_suffix env p) = ''.txt'' \<longrightarrow> fst (parse_file env p w) = parse_txt env p w)"
    by (simp add: parse_file_fst parse_dispatch_def)
  from rest same show ?thesis by blast
qed

lemma demo_suffixes:
  "path_suffix demo ''report.XLSX'' = ''.XLSX''"
  "path_suffix demo ''Notice.TxT'' = ''.TxT''"
  "path_suffix demo ''notice.txt'' = ''.txt''"
  "path_suffix demo ''scan.PDF'' = ''.PDF''"
  "path_suffix demo ''letter.Docx'' = ''.Docx''"
  "lower ''.XLSX'' = ''.xlsx''"
  "lower ''.TxT'' = ''.txt''"
  "lower ''.txt'' = ''.txt''"
  "lower ''.PDF'' = ''.pdf''"
  "lower ''.Docx'' = ''.docx''"
  by code_simp+

theorem parse_file_dispatches_on_suffix_witness:
  "fst (parse_file demo ''report.XLSX'' empty_world) = Inl (ValueError ''Unsupported file type: .XLSX'')
   \<and> fst (parse_file demo ''scan.PDF''
        (empty_world\<lparr>files := [''scan.PDF'' \<mapsto> [0x68, 0x65, 0x6C, 0x6C, 0x6F]]\<rparr>))
      = Inl (LibError ''EOF marker not found'')
   \<and> fst (parse_file demo ''letter.Docx''
        (empty_world\<lparr>files := [''letter.Docx'' \<mapsto> [0x68, 0x65, 0x6C, 0x6C, 0x6F]]\<rparr>))
      = Inl (LibError ''File is not a zip file'')
   \<and> fst (parse_file demo ''Notice.TxT''
        (empty_world\<lparr>files := [''Notice.TxT'' \<mapsto> [0x68, 0x65, 0x6C, 0x6C, 0x6F],
                                 ''notice.txt'' \<mapsto> [0x68, 0x65, 0x6C, 0x6C, 0x6F]]\<rparr>))
      = Inr ''hello''
   \<and> fst (parse_file demo ''notice.txt''
        (empty_world\<lparr>files := [''Notice.TxT'' \<mapsto> [0x68, 0x65, 0x6C, 0x6C, 0x6F],
                                 ''notice.txt'' \<mapsto> [0x68, 0x65, 0x6C, 0x6C, 0x6F]]\<rparr>))
      = Inr ''hello''"
proof -
  let ?hello = "[0x68, 0x65, 0x6C, 0x6C, 0x6F] :: bytes"
  let ?w = "empty_world\<lparr>files := [''Notice.TxT'' \<mapsto> ?hello, ''notice.txt'' \<mapsto> ?hello]\<rparr>"
  have a: "fst (parse_file demo ''report.XLSX'' empty_world)
      = Inl (ValueError ''Unsupported file type: .XLSX'')"
    using parse_file_dispatches_on_suffix [of demo "''report.XLSX''" empty_world]
    by (simp add: demo_suffixes)
  have b: "fst (parse_file demo ''scan.PDF'' (empty_world\<lparr>files := [''scan.PDF'' \<mapsto> ?hello]\<rparr>))
      = Inl (LibError ''EOF marker not found'')"
    using parse_file_dispatches_on_suffix
      [of demo "''scan.PDF''" "empty_world\<lparr>files := [''scan.PDF'' \<mapsto> ?hello]\<rparr>"]
    by (simp add: demo_suffixes parse_pdf_def) (simp add: demo_def)
  have c: "fst (parse_file demo ''letter.Docx'' (empty_world\<lparr>files := [''letter.Docx'' \<mapsto> ?hello]\<rparr>))
      = Inl (LibError ''File is not a zip file'')"
    using parse_file_dispatches_on_suffix
      [of demo "''letter.Docx''" "empty_world\<lparr>files := [''letter.Docx'' \<mapsto> ?hello]\<rparr>"]
    by (simp add: demo_suffixes parse_docx_def) (simp add: demo_def)
  have d: "fst (parse_file demo ''Notice.TxT'' ?w) = Inr ''hello''"
    using parse_file_dispatches_on_suffix [of demo "''Notice.TxT''" ?w]
    by (simp add: demo_suffixes parse_txt_def) (simp add: demo_def demo_utf8_decode_def)
  have same: "\<forall>q content doc.
         lower (path_suffix demo q) = lower (path_suffix demo ''Notice.TxT'') \<and>
         files ?w ''Notice.TxT'' = Some content \<and> files ?w q = Some content \<longrightarrow>
         (fst (parse_file demo ''Notice.TxT'' ?w) = Inr doc \<longleftrightarrow> fst (parse_file demo q ?w) = Inr doc)"
    using parse_file_dispatches_on_suffix [of demo "''Notice.TxT''" ?w] by blast
  have "lower (path_suffix demo ''notice.txt'') = lower (path_suffix demo ''Notice.TxT'') \<and>
         files ?w ''Notice.TxT'' = Some ?hello \<and> files ?w ''notice.txt'' = Some ?hello"
    by (simp add: demo_suffixes)
  with same have "fst (parse_file demo ''Notice.TxT'' ?w) = Inr ''hello''
      \<longleftrightarrow> fst (parse_file demo ''notice.txt'' ?w) = Inr ''hello''"
    by blast
  with d have e: "fst (parse_file demo ''notice.txt'' ?w) = Inr ''hello''"
    by simp
  from a b c d e show ?thesis by simp
qed

section \<open>Routing\<close>

text \<open>
  C9. When the URL map matches no rule for the request (werkzeug raises \<open>NotFound\<close>),
  the answer is the registered 404 handler's: status 404 and a JSON body that lists
  \<^verbatim>\<open>/analyze\<close>, \<^verbatim>\<open>/batch-analyze\<close>, \<^verbatim>\<open>/health\<close> and \<^verbatim>\<open>/test\<close>; nothing else
  happens.
\<close>

theorem unmatched_route_answers_404_with_endpoints:
  assumes "url_match env (url_path req) (http_method req) = Inl (HTTPException 404 m)"
  shows "dispatch_request env req w =
    (JsonResponse
       (JObj [(''error'', JStr ''Endpoint not found''),
              (''available_endpoints'',
               JArr [JStr ''/analyze'', JStr ''/batch-analyze'', JStr ''/health'', JStr ''/test''])])
       404, w)"
  using assms by (simp add: dispatch_request_def not_found_def)

theorem unmatched_route_answers_404_with_endpoints_witness:
  "dispatch_request demo \<lparr>url_path = ''/unknown-path'', http_method = ''GET'', get_json = Inr JNull\<rparr> empty_world =
    (JsonResponse
       (JObj [(''error'', JStr ''Endpoint not found''),
              (''available_endpoints'',
               JArr [JStr ''/analyze'', JStr ''/batch-analyze'', JStr ''/health'', JStr ''/test''])])
       404, empty_world)"
proof -
  have "url_match demo (url_path \<lparr>url_path = ''/unknown-path'', http_method = ''GET'', get_json = Inr JNull\<rparr>)
          (http_method \<lparr>url_path = ''/unknown-path'', http_method = ''GET'', get_json = Inr JNull\<rparr>)
        = Inl (HTTPException 404 ''404 Not Found: The requested URL was not found on the server.'')"
    by (simp add: demo_def demo_url_match_def)
  then show ?thesis
    by (rule unmatched_route_answers_404_with_endpoints)
qed

section \<open>POST /analyze\<close>

lemma analyze_route_fst:
  "fst (analyze_document_route env req w) =
     (case fst (analyze_route_try env req w) of
        Inr resp \<Rightarrow> resp
      | Inl e \<Rightarrow> error_response (''Internal server error: '' @ exn_str e) 500)"
  by (simp add: analyze_document_route_def split: prod.splits sum.splits)

lemma analyze_route_falsy:
  assumes "get_json req = Inr (JObj kvs)" and "kvs \<noteq> []"
    and "py_get (JObj kvs) ''fileContent'' JNull = Inr fc"
    and "py_get (JObj kvs) ''fileName'' JNull = Inr fn"
    and "\<not> truthy fc \<or> \<not> truthy fn"
  shows "analyze_document_route env req w =
      (error_response ''fileContent and fileName are required'' 400, w)"
  using assms by (auto simp: analyze_document_route_def analyze_route_try_def)

text \<open>
  C10. A request whose JSON body is a non-empty object in which \<open>fileContent\<close> or
  \<open>fileName\<close> is present with a falsy value (the empty string, \<open>null\<close>, \<open>false\<close>,
  zero, an empty list or object) gets the same answer as one in which the field is
  missing: status 400, \<open>success\<close> false, the error
  \<^verbatim>\<open>fileContent and fileName are required\<close>; nothing is staged and the model is not
  called.
\<close>

theorem falsy_field_rejected_like_missing_field:
  assumes "get_json req = Inr (JObj kvs)" and "kvs \<noteq> []"
    and "(\<exists>v. map_of kvs ''fileContent'' = Some v \<and> \<not> truthy v)
       \<or> (\<exists>v. map_of kvs ''fileName'' = Some v \<and> \<not> truthy v)
       \<or> map_of kvs ''fileContent'' = None
       \<or> map_of kvs ''fileName'' = None"
  shows "analyze_document_route env req w =
      (JsonResponse
         (JObj [(''success'', JBool False),
                (''error'', JStr ''fileContent and fileName are required'')])
         400, w)"
proof -
  let ?fc = "case map_of kvs ''fileContent'' of None \<Rightarrow> JNull | Some v \<Rightarrow> v"
  let ?fn = "case map_of kvs ''fileName'' of None \<Rightarrow> JNull | Some v \<Rightarrow> v"
  from assms(3) have "\<not> truthy ?fc \<or> \<not> truthy ?fn"
    by auto
  then show ?thesis
    using analyze_route_falsy [OF assms(1,2), of ?fc ?fn env w]
    by (simp add: error_response_def)
qed

theorem falsy_field_rejected_like_missing_field_witness:
  "analyze_document_route demo
     (post_json ''/analyze'' (JObj [(''fileContent'', JStr ''''), (''fileName'', JStr ''a.txt'')]))
     empty_world
   = (JsonResponse
        (JObj [(''success'', JBool False),
               (''error'', JStr ''fileContent and fileName are required'')])
        400, empty_world)
   \<and> analyze_document_route demo
     (post_json ''/analyze'' (JObj [(''fileContent'', JStr ''aGVsbG8=''), (''fileName'', JNull)]))
     empty_world
   = (JsonResponse
        (JObj [(''success'', JBool False),
               (''error'', JStr ''fileContent and fileName are required'')])
        400, empty_world)
   \<and> analyze_document_route demo
     (post_json ''/analyze'' (JObj [(''fileContent'', JStr ''aGVsbG8='')]))
     empty_world
   = (JsonResponse
        (JObj [(''success'', JBool False),
               (''error'', JStr ''fileContent and fileName are required'')])
        400, empty_world)"
proof -
  have a: "analyze_document_route demo
     (post_json ''/analyze'' (JObj [(''fileContent'', JStr ''''), (''fileName'', JStr ''a.txt'')]))
     empty_world
   = (JsonResponse
        (JObj [(''success'', JBool False),
               (''error'', JStr ''fileContent and fileName are required'')])
        400, empty_world)"
    by (rule falsy_field_rejected_like_missing_field [where kvs = "[(''fileContent'', JStr ''''), (''fileName'', JStr ''a.txt'')]"])
      (simp_all add: post_json_def)
  have b: "analyze_document_route demo
     (post_json ''/analyze'' (JObj [(''fileContent'', JStr ''aGVsbG8=''), (''fileName'', JNull)]))
     empty_world
   = (JsonResponse
        (JObj [(''success'', JBool False),
               (''error'', JStr ''fileContent and fileName are required'')])
        400, empty_world)"
    by (rule falsy_field_rejected_like_missing_field [where kvs = "[(''fileContent'', JStr ''aGVsbG8=''), (''fileName'', JNull)]"])
      (simp_all add: post_json_def)
  have c: "analyze_document_route demo
     (post_json ''/analyze'' (JObj [(''fileContent'', JStr ''aGVsbG8='')]))
     empty_world
   = (JsonResponse
        (JObj [(''success'', JBool False),
               (''error'', JStr ''fileContent and fileName are required'')])
        400, empty_world)"
    by (rule falsy_field_rejected_like_missing_field [where kvs = "[(''fileContent'', JStr ''aGVsbG8='')]"])
      (simp_all add: post_json_def)
  from a b c show ?thesis by simp
qed

lemma analyze_staged_fst:
  "fst (analyze_staged env fn p w) =
     (case fst (parse_file env p w) of
        Inl e \<Rightarrow> Inl e
      | Inr doc \<Rightarrow>
          if strip doc = []
          then Inr (error_response ''No text could be extracted from the document'' 400)
          else
            (case fst (analyze_document env doc w) of
               Inl e \<Rightarrow> Inl e
             | Inr a \<Rightarrow>
                 Inr (JsonResponse
                   (JObj [(''success'', JBool True),
                          (''analysis'', a),
                          (''processedAt'', JStr (isoformat_now env (ticks (snd (analyze_document env doc w))))),
                          (''fileName'', fn),
                          (''documentLength'', JInt (int (length doc)))])
                   200)))"
  by (simp add: analyze_staged_def parse_file_def datetime_now_iso_def
      split: sum.splits prod.splits)

lemma analyze_route_try_staged:
  assumes "get_json req = Inr (JObj kvs)" and "kvs \<noteq> []"
    and "py_get (JObj kvs) ''fileContent'' JNull = Inr fc"
    and "py_get (JObj kvs) ''fileName'' JNull = Inr fn"
    and "truthy fc" and "truthy fn"
    and "b64decode env fc = Inr content"
    and "suffix_of_value env fn = Inr sfx"
    and "named_temporary_file env sfx content w = (Inr p, w1)"
  shows "fst (analyze_route_try env req w) = fst (analyze_staged env fn p w1)"
  using assms by (auto simp: analyze_route_try_def split: prod.splits)







lemma analyze_route_reaches_staged:
  assumes "get_json req = Inr (JObj kvs)" and "kvs \<noteq> []"
    and "py_get (JObj kvs) ''fileContent'' JNull = Inr fc"
    and "py_get (JObj kvs) ''fileName'' JNull = Inr fn"
    and "truthy fc" and "truthy fn"
    and "b64decode env fc = Inr content"
    and "suffix_of_value env fn = Inr sfx"
    and "named_temporary_file env sfx content w = (Inr p, w1)"
  shows "fst (analyze_document_route env req w) =
     (case fst (parse_file env p w1) of
        Inl e \<Rightarrow> error_response (''Internal server error: '' @ exn_str e) 500
      | Inr doc \<Rightarrow>
          if strip doc = []
          then error_response ''No text could be extracted from the document'' 400
          else
            (case fst (analyze_document env doc w1) of
               Inl e \<Rightarrow> error_response (''Internal server error: '' @ exn_str e) 500
             | Inr a \<Rightarrow>
                 JsonResponse
                   (JObj [(''success'', JBool True),
                          (''analysis'', a),
                          (''processedAt'', JStr (isoformat_now env (ticks (snd (analyze_document env doc w1))))),
                          (''fileName'', fn),
                          (''documentLength'', JInt (int (length doc)))])
                   200))"
  unfolding analyze_route_fst analyze_route_try_staged [OF assms] analyze_staged_fst
  by (simp split: sum.splits)


lemma demo_stage:
  "named_temporary_file demo sfx content empty_world =
     (Inr (''/tmp/tmp'' @ sfx),
      \<lparr>files = [''/tmp/tmp'' @ sfx \<mapsto> content], tmp_seq = 1, ticks = 0,
       log = [EvStage (''/tmp/tmp'' @ sfx)]\<rparr>)"
  by (simp add: named_temporary_file_def Let_def demo_def empty_world_def)

lemma demo_tmp_suffixes:
  "path_suffix demo ''a.txt'' = ''.txt''"
  "path_suffix demo ''b.txt'' = ''.txt''"
  "path_suffix demo ''c.txt'' = ''.txt''"
  "path_suffix demo ''empty.txt'' = ''.txt''"
  "path_suffix demo ''a.xlsx'' = ''.xlsx''"
  "path_suffix demo ''/tmp/tmp.txt'' = ''.txt''"
  "path_suffix demo ''/tmp/tmpx.txt'' = ''.txt''"
  "path_suffix demo ''/tmp/tmpxx.txt'' = ''.txt''"
  "path_suffix demo ''/tmp/tmp.xlsx'' = ''.xlsx''"
  "lower ''.xlsx'' = ''.xlsx''"
  by code_simp+


lemma demo_parse_staged_txt:
  assumes "path_suffix env = path_suffix demo" and "utf8_decode env = utf8_decode demo"
    and "files w ''/tmp/tmp.txt'' = Some content"
  shows "fst (parse_file env ''/tmp/tmp.txt'' w) = utf8_decode demo content"
  using assms
  by (simp add: parse_file_fst parse_dispatch_def parse_txt_def demo_tmp_suffixes demo_suffixes)




lemma demo_decodes:
  "b64decode demo (JStr ''aGVsbG8='') = Inr [0x68, 0x65, 0x6C, 0x6C, 0x6F]"
  "b64decode demo (JStr ''ICAK'') = Inr [0x20, 0x20, 0x0A]"
  "b64decode demo (JStr '''') = Inr []"
  "b64decode demo (JStr ''abc'') = Inl (LibError ''Incorrect padding'')"
  "utf8_decode demo [0x68, 0x65, 0x6C, 0x6C, 0x6F] = Inr ''hello''"
  "utf8_decode demo [0x20, 0x20, 0x0A] = Inr [CHR 0x20, CHR 0x20, CHR 0x0A]"
  "utf8_decode demo [] = Inr []"
  by (simp_all add: demo_def demo_b64decode_def demo_utf8_decode_def)

lemma strip_examples:
  "strip [CHR 0x20, CHR 0x20, CHR 0x0A] = []"
  "strip ''hello'' \<noteq> []"
  "strip [] = []"
  by (simp_all add: strip_def isspace_def)


section \<open>What the analysis accepts of the model's reply\<close>

lemma analyze_try_parse_failure:
  assumes "messages_create env (analysis_prompt doc) = Inr reply"
    and "json_loads env reply = Inl e"
  shows "fst (analyze_try env doc w) = Inl e"
  using assms by (simp add: analyze_try_def Let_def)

lemma analyze_try_not_object:
  assumes "messages_create env (analysis_prompt doc) = Inr reply"
    and "json_loads env reply = Inr v"
    and "\<forall>kvs. v \<noteq> JObj kvs"
  shows "\<exists>m. fst (analyze_try env doc w) = Inl (TypeError m)"
  using assms
  by (cases v) (simp_all add: analyze_try_def Let_def datetime_now_iso_def)

text \<open>
  C5 (as the code has it). A reply that is not valid JSON makes \<open>analyze_document\<close> fail
  with the parser's exception and no result, and the handler of \<^verbatim>\<open>POST /analyze\<close>,
  once it has reached the analysis, answers 500. A reply that parses to a JSON object is
  accepted whatever its keys, the twelve requested ones or none. A reply that parses to
  any other JSON value (a list, a string, a number, \<open>true\<close>, \<open>null\<close>) fails as well,
  with a \<open>TypeError\<close> raised when the metadata is added, and the handler answers 500
  for it too.
\<close>

theorem reply_must_parse_to_an_object:
  "(messages_create env (analysis_prompt doc) = Inr reply \<and> json_loads env reply = Inl e \<longrightarrow>
      fst (analyze_document env doc w) = Inl e)
   \<and> (messages_create env (analysis_prompt doc) = Inr reply \<and> json_loads env reply = Inl e
       \<and> get_json req = Inr (JObj items) \<and> items \<noteq> []
       \<and> py_get (JObj items) ''fileContent'' JNull = Inr fc
       \<and> py_get (JObj items) ''fileName'' JNull = Inr fn
       \<and> truthy fc \<and> truthy fn \<and> b64decode env fc = Inr content
       \<and> suffix_of_value env fn = Inr sfx
       \<and> named_temporary_file env sfx content w0 = (Inr p, w1)
       \<and> fst (parse_file env p w1) = Inr doc \<and> strip doc \<noteq> [] \<longrightarrow>
      fst (analyze_document_route env req w0)
        = JsonResponse
            (JObj [(''success'', JBool False),
                   (''error'', JStr (''Internal server error: '' @ exn_str e))])
            500)
   \<and> (messages_create env (analysis_prompt doc) = Inr reply \<and> json_loads env reply = Inr (JObj kvs) \<longrightarrow>
      (\<exists>r. fst (analyze_document env doc w) = Inr r))
   \<and> (messages_create env (analysis_prompt doc) = Inr reply \<and> json_loads env reply = Inr v
       \<and> (\<forall>kvs. v \<noteq> JObj kvs) \<longrightarrow>
      (\<exists>m. fst (analyze_document env doc w) = Inl (TypeError m)))
   \<and> (messages_create env (analysis_prompt doc) = Inr reply \<and> json_loads env reply = Inr v
       \<and> (\<forall>kvs. v \<noteq> JObj kvs)
       \<and> get_json req = Inr (JObj items) \<and> items \<noteq> []
       \<and> py_get (JObj items) ''fileContent'' JNull = Inr fc
       \<and> py_get (JObj items) ''fileName'' JNull = Inr fn
       \<and> truthy fc \<and> truthy fn \<and> b64decode env fc = Inr content
       \<and> suffix_of_value env fn = Inr sfx
       \<and> named_temporary_file env sfx content w0 = (Inr p, w1)
       \<and> fst (parse_file env p w1) = Inr doc \<and> strip doc \<noteq> [] \<longrightarrow>
      (\<exists>m. fst (analyze_document env doc w1) = Inl (TypeError m)
         \<and> fst (analyze_document_route env req w0)
        = JsonResponse
            (JObj [(''success'', JBool False),
                   (''error'', JStr (''Internal server error: '' @ m))])
            500))"
proof -
  have a: "fst (analyze_document env doc w) = Inl e"
    if "messages_create env (analysis_prompt doc) = Inr reply" "json_loads env reply = Inl e" for w
    using analyze_try_parse_failure [OF that] by (simp add: analyze_document_fst)
  have b: "fst (analyze_document_route env req w0)
        = JsonResponse
            (JObj [(''success'', JBool False),
                   (''error'', JStr (''Internal server error: '' @ exn_str e))])
            500"
    if "messages_create env (analysis_prompt doc) = Inr reply" "json_loads env reply = Inl e"
      and "get_json req = Inr (JObj items)" "items \<noteq> []"
       "py_get (JObj items) ''fileContent'' JNull = Inr fc"
       "py_get (JObj items) ''fileName'' JNull = Inr fn"
       "truthy fc" "truthy fn" "b64decode env fc = Inr content"
       "suffix_of_value env fn = Inr sfx"
       "named_temporary_file env sfx content w0 = (Inr p, w1)"
      and "fst (parse_file env p w1) = Inr doc" "strip doc \<noteq> []"
    using analyze_route_reaches_staged [OF that(3-11)] that(12,13) a [OF that(1,2), of w1]
    by (simp add: error_response_def)
  have c: "\<exists>r. fst (analyze_document env doc w) = Inr r"
    if "messages_create env (analysis_prompt doc) = Inr reply" "json_loads env reply = Inr (JObj kvs)"
    using analyze_try_object [OF that] by (simp add: analyze_document_fst)
  have d: "\<exists>m. fst (analyze_document env doc w) = Inl (TypeError m)"
    if "messages_create env (analysis_prompt doc) = Inr reply" "json_loads env reply = Inr v"
      "\<forall>kvs. v \<noteq> JObj kvs" for w
    using analyze_try_not_object [OF that] by (simp add: analyze_document_fst)
  have e: "\<exists>m. fst (analyze_document env doc w1) = Inl (TypeError m)
         \<and> fst (analyze_document_route env req w0)
        = JsonResponse
            (JObj [(''success'', JBool False),
                   (''error'', JStr (''Internal server error: '' @ m))])
            500"
    if "messages_create env (analysis_prompt doc) = Inr reply" "json_loads env reply = Inr v"
      "\<forall>kvs. v \<noteq> JObj kvs"
      and "get_json req = Inr (JObj items)" "items \<noteq> []"
       "py_get (JObj items) ''fileContent'' JNull = Inr fc"
       "py_get (JObj items) ''fileName'' JNull = Inr fn"
       "truthy fc" "truthy fn" "b64decode env fc = Inr content"
       "suffix_of_value env fn = Inr sfx"
       "named_temporary_file env sfx content w0 = (Inr p, w1)"
      and "fst (parse_file env p w1) = Inr doc" "strip doc \<noteq> []"
  proof -
    from d [OF that(1-3), of w1] obtain m where m: "fst (analyze_document env doc w1) = Inl (TypeError m)"
      by blast
    with analyze_route_reaches_staged [OF that(4-12)] that(13,14)
    have "fst (analyze_document_route env req w0)
        = JsonResponse
            (JObj [(''success'', JBool False),
                   (''error'', JStr (''Internal server error: '' @ m))])
            500"
      by (simp add: error_response_def)
    with m show ?thesis
      by blast
  qed
  have a': "(messages_create env (analysis_prompt doc) = Inr reply \<and> json_loads env reply = Inl e \<longrightarrow>
      fst (analyze_document env doc w) = Inl e)"
    by (intro impI, elim conjE, rule a, assumption+)
  have b': "(messages_create env (analysis_prompt doc) = Inr reply \<and> json_loads env reply = Inl e
       \<and> get_json req = Inr (JObj items) \<and> items \<noteq> []
       \<and> py_get (JObj items) ''fileContent'' JNull = Inr fc
       \<and> py_get (JObj items) ''fileName'' JNull = Inr fn
       \<and> truthy fc \<and> truthy fn \<and> b64decode env fc = Inr content
       \<and> suffix_of_value env fn = Inr sfx
       \<and> named_temporary_file env sfx content w0 = (Inr p, w1)
       \<and> fst (parse_file env p w1) = Inr doc \<and> strip doc \<noteq> [] \<longrightarrow>
      fst (analyze_document_route env req w0)
        = JsonResponse
            (JObj [(''success'', JBool False),
                   (''error'', JStr (''Internal server error: '' @ exn_str e))])
            500)"
    by (intro impI, elim conjE, rule b, assumption+)
  have c': "(messages_create env (analysis_prompt doc) = Inr reply \<and> json_loads env reply = Inr (JObj kvs) \<longrightarrow>
      (\<exists>r. fst (analyze_document env doc w) = Inr r))"
    by (intro impI, elim conjE, rule c, assumption+)
  have d': "(messages_create env (analysis_prompt doc) = Inr reply \<and> json_loads env reply = Inr v
       \<and> (\<forall>kvs. v \<noteq> JObj kvs) \<longrightarrow>
      (\<exists>m. fst (analyze_document env doc w) = Inl (TypeError m)))"
    by (intro impI, elim conjE, rule d, assumption+)
  have e': "(messages_create env (analysis_prompt doc) = Inr reply \<and> json_loads env reply = Inr v
       \<and> (\<forall>kvs. v \<noteq> JObj kvs)
       \<and> get_json req = Inr (JObj items) \<and> items \<noteq> []
       \<and> py_get (JObj items) ''fileContent'' JNull = Inr fc
       \<and> py_get (JObj items) ''fileName'' JNull = Inr fn
       \<and> truthy fc \<and> truthy fn \<and> b64decode env fc = Inr content
       \<and> suffix_of_value env fn = Inr sfx
       \<and> named_temporary_file env sfx content w0 = (Inr p, w1)
       \<and> fst (parse_file env p w1) = Inr doc \<and> strip doc \<noteq> [] \<longrightarrow>
      (\<exists>m. fst (analyze_document env doc w1) = Inl (TypeError m)
         \<and> fst (analyze_document_route env req w0)
        = JsonResponse
            (JObj [(''success'', JBool False),
                   (''error'', JStr (''Internal server error: '' @ m))])
            500))"
    by (intro impI, elim conjE, rule e, assumption+)
  from a' b' c' d' e' show ?thesis
    by (intro conjI)
qed

lemma demo_list_reply:
  "fst (analyze_document (demo\<lparr>messages_create := (\<lambda>prompt. Inr ''[]'')\<rparr>) doc w)
     = Inl (TypeError ''list indices must be integers or slices, not str'')"
  by (simp add: analyze_document_fst analyze_try_def Let_def datetime_now_iso_def demo_def
      demo_json_loads_def demo_reply_def)

lemma demo_empty_object_reply:
  "fst (analyze_document (demo\<lparr>messages_create := (\<lambda>prompt. Inr ''{}'')\<rparr>) doc empty_world)
     = Inr (JObj [(''analysis_timestamp'', JStr ''2025-01-01T00:00:00''),
                  (''document_length'', JInt (int (length doc)))])"
  by (simp add: analyze_document_fst analyze_try_def Let_def datetime_now_iso_def demo_def
      demo_json_loads_def demo_reply_def empty_world_def)

text \<open>
  The claim as the specification words it, that parsing is the only thing the reply has to
  pass, fails on the reply \<^verbatim>\<open>[]\<close>: it is valid JSON, \<open>json_loads\<close> returns the
  empty list, and the analysis raises.
\<close>

theorem parsed_list_reply_still_fails:
  "json_loads (demo\<lparr>messages_create := (\<lambda>prompt. Inr ''[]'')\<rparr>) ''[]'' = Inr (JArr [])
   \<and> messages_create (demo\<lparr>messages_create := (\<lambda>prompt. Inr ''[]'')\<rparr>) (analysis_prompt ''hello'') = Inr ''[]''
   \<and> fst (analyze_document (demo\<lparr>messages_create := (\<lambda>prompt. Inr ''[]'')\<rparr>) ''hello'' empty_world)
       = Inl (TypeError ''list indices must be integers or slices, not str'')
   \<and> fst (analyze_document_route (demo\<lparr>messages_create := (\<lambda>prompt. Inr ''[]'')\<rparr>)
        (post_json ''/analyze'' (JObj [(''fileContent'', JStr ''aGVsbG8=''), (''fileName'', JStr ''a.txt'')]))
        empty_world)
       = JsonResponse
           (JObj [(''success'', JBool False),
                  (''error'', JStr ''Internal server error: list indices must be integers or slices, not str'')])
           500"
proof -
  let ?env = "demo\<lparr>messages_create := (\<lambda>prompt. Inr ''[]'')\<rparr>"
  let ?hello = "[0x68, 0x65, 0x6C, 0x6C, 0x6F] :: bytes"
  let ?kvs = "[(''fileContent'', JStr ''aGVsbG8=''), (''fileName'', JStr ''a.txt'')]"
  let ?w1 = "snd (named_temporary_file demo ''.txt'' ?hello empty_world)"
  have a: "json_loads ?env ''[]'' = Inr (JArr [])"
    by (simp add: demo_def demo_json_loads_def demo_reply_def)
  have b: "messages_create ?env (analysis_prompt ''hello'') = Inr ''[]''"
    by simp
  have stage: "named_temporary_file ?env ''.txt'' ?hello empty_world = (Inr ''/tmp/tmp.txt'', ?w1)"
    by (simp add: named_temporary_file_def Let_def demo_def empty_world_def)
  have parse: "fst (parse_file ?env ''/tmp/tmp.txt'' ?w1) = Inr ''hello''"
    using demo_parse_staged_txt [of ?env ?w1 ?hello]
    by (simp add: demo_decodes demo_stage)
  have dec: "b64decode ?env (JStr ''aGVsbG8='') = Inr ?hello"
    and sfx: "suffix_of_value ?env (JStr ''a.txt'') = Inr ''.txt''"
    and body: "get_json (post_json ''/analyze'' (JObj ?kvs)) = Inr (JObj ?kvs)"
    and fc: "py_get (JObj ?kvs) ''fileContent'' JNull = Inr (JStr ''aGVsbG8='')"
    and fn: "py_get (JObj ?kvs) ''fileName'' JNull = Inr (JStr ''a.txt'')"
    by (simp_all add: post_json_def demo_decodes suffix_of_value_def demo_tmp_suffixes)
  have "fst (analyze_document_route ?env (post_json ''/analyze'' (JObj ?kvs)) empty_world)
       = error_response ''Internal server error: list indices must be integers or slices, not str'' 500"
    using analyze_route_reaches_staged [OF body _ fc fn _ _ dec sfx stage]
      parse demo_list_reply [of "''hello''" ?w1]
    by (simp add: strip_examples)
  with a b demo_list_reply [of "''hello''" empty_world] show ?thesis
    by (simp add: error_response_def)
qed

theorem reply_must_parse_to_an_object_witness:
  "fst (analyze_document (demo\<lparr>messages_create := (\<lambda>prompt. Inr ''I cannot help with that.'')\<rparr>)
      ''hello'' empty_world)
     = Inl (LibError ''Expecting value: line 1 column 1 (char 0)'')
   \<and> fst (analyze_document_route (demo\<lparr>messages_create := (\<lambda>prompt. Inr ''I cannot help with that.'')\<rparr>)
        (post_json ''/analyze'' (JObj [(''fileContent'', JStr ''aGVsbG8=''), (''fileName'', JStr ''a.txt'')]))
        empty_world)
       = JsonResponse
           (JObj [(''success'', JBool False),
                  (''error'', JStr ''Internal server error: Expecting value: line 1 column 1 (char 0)'')])
           500
   \<and> (\<exists>r. fst (analyze_document (demo\<lparr>messages_create := (\<lambda>prompt. Inr ''{}'')\<rparr>) ''hello'' empty_world) = Inr r)
   \<and> (\<exists>m. fst (analyze_document (demo\<lparr>messages_create := (\<lambda>prompt. Inr ''[]'')\<rparr>) ''hello'' empty_world)
          = Inl (TypeError m))
   \<and> (\<exists>m. fst (analyze_document_route (demo\<lparr>messages_create := (\<lambda>prompt. Inr ''[]'')\<rparr>)
        (post_json ''/analyze'' (JObj [(''fileContent'', JStr ''aGVsbG8=''), (''fileName'', JStr ''a.txt'')]))
        empty_world)
       = JsonResponse
           (JObj [(''success'', JBool False),
                  (''error'', JStr (''Internal server error: '' @ m))])
           500)"
proof -
  let ?refuse = "demo\<lparr>messages_create := (\<lambda>prompt. Inr ''I cannot help with that.'')\<rparr>"
  let ?bare = "demo\<lparr>messages_create := (\<lambda>prompt. Inr ''{}'')\<rparr>"
  let ?listy = "demo\<lparr>messages_create := (\<lambda>prompt. Inr ''[]'')\<rparr>"
  let ?hello = "[0x68, 0x65, 0x6C, 0x6C, 0x6F] :: bytes"
  let ?kvs = "[(''fileContent'', JStr ''aGVsbG8=''), (''fileName'', JStr ''a.txt'')]"
  let ?w1 = "snd (named_temporary_file demo ''.txt'' ?hello empty_world)"
  let ?e = "LibError ''Expecting value: line 1 column 1 (char 0)''"
  have reply: "messages_create ?refuse (analysis_prompt ''hello'') = Inr ''I cannot help with that.''
      \<and> json_loads ?refuse ''I cannot help with that.'' = Inl ?e"
    by (simp add: demo_def demo_json_loads_def demo_reply_def)
  from reply_must_parse_to_an_object
      [where env = ?refuse and doc = "''hello''" and reply = "''I cannot help with that.''"
        and e = ?e and w = empty_world, THEN conjunct1, THEN mp, OF reply]
  have s1: "fst (analyze_document ?refuse ''hello'' empty_world) = Inl ?e" .
  have stage: "named_temporary_file ?refuse ''.txt'' ?hello empty_world = (Inr ''/tmp/tmp.txt'', ?w1)"
    by (simp add: named_temporary_file_def Let_def demo_def empty_world_def)
  have parse: "fst (parse_file ?refuse ''/tmp/tmp.txt'' ?w1) = Inr ''hello''"
    using demo_parse_staged_txt [of ?refuse ?w1 ?hello]
    by (simp add: demo_decodes demo_stage)
  have route: "messages_create ?refuse (analysis_prompt ''hello'') = Inr ''I cannot help with that.''
       \<and> json_loads ?refuse ''I cannot help with that.'' = Inl ?e
       \<and> get_json (post_json ''/analyze'' (JObj ?kvs)) = Inr (JObj ?kvs) \<and> ?kvs \<noteq> []
       \<and> py_get (JObj ?kvs) ''fileContent'' JNull = Inr (JStr ''aGVsbG8='')
       \<and> py_get (JObj ?kvs) ''fileName'' JNull = Inr (JStr ''a.txt'')
       \<and> truthy (JStr ''aGVsbG8='') \<and> truthy (JStr ''a.txt'')
       \<and> b64decode ?refuse (JStr ''aGVsbG8='') = Inr ?hello
       \<and> suffix_of_value ?refuse (JStr ''a.txt'') = Inr ''.txt''
       \<and> named_temporary_file ?refuse ''.txt'' ?hello empty_world = (Inr ''/tmp/tmp.txt'', ?w1)
       \<and> fst (parse_file ?refuse ''/tmp/tmp.txt'' ?w1) = Inr ''hello'' \<and> strip ''hello'' \<noteq> []"
    using reply stage parse
    by (simp add: post_json_def demo_decodes suffix_of_value_def demo_tmp_suffixes strip_examples)
  from reply_must_parse_to_an_object
      [where env = ?refuse and doc = "''hello''" and reply = "''I cannot help with that.''"
        and e = ?e and req = "post_json ''/analyze'' (JObj ?kvs)" and items = ?kvs
        and fc = "JStr ''aGVsbG8=''" and fn = "JStr ''a.txt''" and content = ?hello
        and sfx = "''.txt''" and ?w0.0 = empty_world and p = "''/tmp/tmp.txt''" and ?w1.0 = ?w1,
        THEN conjunct2, THEN conjunct1, THEN mp, OF route]
  have s2: "fst (analyze_document_route ?refuse (post_json ''/analyze'' (JObj ?kvs)) empty_world)
       = JsonResponse
           (JObj [(''success'', JBool False),
                  (''error'', JStr (''Internal server error: '' @ exn_str ?e))])
           500" .
  have bare: "messages_create ?bare (analysis_prompt ''hello'') = Inr ''{}''
      \<and> json_loads ?bare ''{}'' = Inr (JObj [])"
    by (simp add: demo_def demo_json_loads_def demo_reply_def)
  from reply_must_parse_to_an_object
      [where env = ?bare and doc = "''hello''" and reply = "''{}''" and kvs = "[]"
        and w = empty_world,
        THEN conjunct2, THEN conjunct2, THEN conjunct1, THEN mp, OF bare]
  have s3: "\<exists>r. fst (analyze_document ?bare ''hello'' empty_world) = Inr r" .
  have listy: "messages_create ?listy (analysis_prompt ''hello'') = Inr ''[]''
      \<and> json_loads ?listy ''[]'' = Inr (JArr []) \<and> (\<forall>kvs. JArr [] \<noteq> JObj kvs)"
    by (simp add: demo_def demo_json_loads_def demo_reply_def)
  from reply_must_parse_to_an_object
      [where env = ?listy and doc = "''hello''" and reply = "''[]''" and v = "JArr []"
        and w = empty_world,
        THEN conjunct2, THEN conjunct2, THEN conjunct2, THEN conjunct1, THEN mp, OF listy]
  have s4: "\<exists>m. fst (analyze_document ?listy ''hello'' empty_world) = Inl (TypeError m)" .
  have stage': "named_temporary_file ?listy ''.txt'' ?hello empty_world = (Inr ''/tmp/tmp.txt'', ?w1)"
    by (simp add: named_temporary_file_def Let_def demo_def empty_world_def)
  have parse': "fst (parse_file ?listy ''/tmp/tmp.txt'' ?w1) = Inr ''hello''"
    using demo_parse_staged_txt [of ?listy ?w1 ?hello]
    by (simp add: demo_decodes demo_stage)
  have route': "messages_create ?listy (analysis_prompt ''hello'') = Inr ''[]''
       \<and> json_loads ?listy ''[]'' = Inr (JArr []) \<and> (\<forall>kvs. JArr [] \<noteq> JObj kvs)
       \<and> get_json (post_json ''/analyze'' (JObj ?kvs)) = Inr (JObj ?kvs) \<and> ?kvs \<noteq> []
       \<and> py_get (JObj ?kvs) ''fileContent'' JNull = Inr (JStr ''aGVsbG8='')
       \<and> py_get (JObj ?kvs) ''fileName'' JNull = Inr (JStr ''a.txt'')
       \<and> truthy (JStr ''aGVsbG8='') \<and> truthy (JStr ''a.txt'')
       \<and> b64decode ?listy (JStr ''aGVsbG8='') = Inr ?hello
       \<and> suffix_of_value ?listy (JStr ''a.txt'') = Inr ''.txt''
       \<and> named_temporary_file ?listy ''.txt'' ?hello empty_world = (Inr ''/tmp/tmp.txt'', ?w1)
       \<and> fst (parse_file ?listy ''/tmp/tmp.txt'' ?w1) = Inr ''hello'' \<and> strip ''hello'' \<noteq> []"
    using listy stage' parse'
    by (simp add: post_json_def demo_decodes suffix_of_value_def demo_tmp_suffixes strip_examples)
  from reply_must_parse_to_an_object
      [where env = ?listy and doc = "''hello''" and reply = "''[]''" and v = "JArr []"
        and req = "post_json ''/analyze'' (JObj ?kvs)" and items = ?kvs
        and fc = "JStr ''aGVsbG8=''" and fn = "JStr ''a.txt''" and content = ?hello
        and sfx = "''.txt''" and ?w0.0 = empty_world and p = "''/tmp/tmp.txt''" and ?w1.0 = ?w1,
        THEN conjunct2, THEN conjunct2, THEN conjunct2, THEN conjunct2, THEN mp, OF route']
  have s5: "\<exists>m. fst (analyze_document ?listy ''hello'' ?w1) = Inl (TypeError m)
         \<and> fst (analyze_document_route ?listy (post_json ''/analyze'' (JObj ?kvs)) empty_world)
        = JsonResponse
            (JObj [(''success'', JBool False),
                   (''error'', JStr (''Internal server error: '' @ m))])
            500" .
  then have s5': "\<exists>m. fst (analyze_document_route ?listy (post_json ''/analyze'' (JObj ?kvs)) empty_world)
        = JsonResponse
            (JObj [(''success'', JBool False),
                   (''error'', JStr (''Internal server error: '' @ m))])
            500"
    by blast
  from s1 s2 s3 s4 s5' show ?thesis by simp
qed

section \<open>Temporary files\<close>



lemma released_in_turn_block:
  "list_all quiet es \<Longrightarrow> released_in_turn (Some p) (es @ [EvUnlink p])"
proof (induction es)
  case Nil
  show ?case by simp
next
  case (Cons e es)
  then show ?case by (cases e) simp_all
qed






lemma parse_file_log:
  "\<exists>es. log (snd (parse_file env p w)) = log w @ es \<and> list_all quiet es \<and> prompts_sent es = []"
  by (simp add: parse_file_def logger_error_def split: sum.splits)

lemma parse_file_ticks: "ticks (snd (parse_file env p w)) = ticks w"
  by (simp add: parse_file_def logger_error_def split: sum.splits)

lemma parse_file_tmp_seq: "tmp_seq (snd (parse_file env p w)) = tmp_seq w"
  by (simp add: parse_file_def logger_error_def split: sum.splits)

lemma parse_file_success_world: "fst (parse_file env p w) = Inr doc \<Longrightarrow> snd (parse_file env p w) = w"
  by (simp add: parse_file_def split: sum.splits)

lemma analyze_document_log:
  "\<exists>es. log (snd (analyze_document env doc w)) = log w @ es \<and> list_all quiet es"
proof (cases "analyze_try env doc w")
  case (Pair r w')
  then have "log w' = log w @ [EvLLM (analysis_prompt doc)]"
    using analyze_try_log [of env doc w] by simp
  with Pair show ?thesis
    by (cases r) (simp_all add: analyze_document_def logger_error_def)
qed

lemma staging_outcomes:
  "(\<exists>e. named_temporary_file env sfx content w = (Inl e, snd (named_temporary_file env sfx content w))
        \<and> log (snd (named_temporary_file env sfx content w)) = log w
        \<and> files (snd (named_temporary_file env sfx content w)) = files w)
   \<or> (\<exists>e p partial.
        named_temporary_file env sfx content w = (Inl e, snd (named_temporary_file env sfx content w))
        \<and> log (snd (named_temporary_file env sfx content w)) = log w @ [EvStageFailed p]
        \<and> files (snd (named_temporary_file env sfx content w)) = (files w)(p \<mapsto> partial))
   \<or> (\<exists>p. named_temporary_file env sfx content w = (Inr p, snd (named_temporary_file env sfx content w))
        \<and> log (snd (named_temporary_file env sfx content w)) = log w @ [EvStage p]
        \<and> files (snd (named_temporary_file env sfx content w)) = (files w)(p \<mapsto> content))"
  by (auto simp: named_temporary_file_def Let_def split: option.splits prod.splits)


lemma staged_block_cleans_up:
  assumes stage: "named_temporary_file env sfx content w = (Inr p, w1)"
    and mid: "log w2 = log w1 @ es" "list_all quiet es" "files w2 = files w1"
    and unlink: "w3 = snd (os_unlink p w2)"
  shows "cleans_up w w3 \<and> fst (os_unlink p w2) = Inr ()"
proof -
  from staging_outcomes [of env sfx content w] stage
  have w1: "log w1 = log w @ [EvStage p]" "files w1 = (files w)(p \<mapsto> content)"
    by auto
  with mid have here: "files w2 p = Some content"
    by simp
  with unlink have w3: "log w3 = log w2 @ [EvUnlink p]" "files w3 = (files w2)(p := None)"
    and ok: "fst (os_unlink p w2) = Inr ()"
    by (simp_all add: os_unlink_def)
  let ?es = "EvStage p # (es @ [EvUnlink p])"
  have "log w3 = log w @ ?es"
    using w1(1) mid(1) w3(1) by simp
  moreover have "released_in_turn None ?es"
    using released_in_turn_block [OF mid(2), of p] by simp
  moreover have "\<forall>q. files w3 q = None \<or> files w3 q = files w q \<or> EvStageFailed q \<in> set ?es"
    using w3(2) mid(3) w1(2) by simp
  ultimately show ?thesis
    using ok unfolding cleans_up_def by blast
qed





section \<open>POST /batch-analyze\<close>

lemma parse_file_reads_only_its_file:
  "files w p = files w' p \<Longrightarrow> fst (parse_file env p w) = fst (parse_file env p w')"
  by (simp add: parse_file_fst parse_dispatch_def parse_pdf_def parse_docx_def parse_txt_def)

lemma analyze_document_reads_only_the_clock:
  "ticks w = ticks w' \<Longrightarrow> fst (analyze_document env doc w) = fst (analyze_document env doc w')"
  by (simp add: analyze_document_fst analyze_try_def Let_def datetime_now_iso_def
      split: sum.splits)

lemma batch_staged_outcome:
  "fst (batch_staged env fn p rs w) =
     (case fst (parse_file env p w) of
        Inl e \<Rightarrow> Inl e
      | Inr doc \<Rightarrow>
          (case fst (analyze_document env doc w) of Inl e \<Rightarrow> Inl e | Inr a \<Rightarrow> Inr ()))
   \<and> fst (snd (batch_staged env fn p rs w)) =
     (case fst (parse_file env p w) of
        Inl e \<Rightarrow> rs
      | Inr doc \<Rightarrow>
          (case fst (analyze_document env doc w) of
             Inl e \<Rightarrow> rs
           | Inr a \<Rightarrow> rs @ [JObj [(''success'', JBool True), (''fileName'', fn), (''analysis'', a)]]))"
proof (cases "parse_file env p w")
  case (Pair r w1)
  show ?thesis
  proof (cases r)
    case (Inl e)
    with Pair show ?thesis by (simp add: batch_staged_def)
  next
    case (Inr doc)
    with Pair have "w1 = w"
      using parse_file_success_world [of env p w doc] by simp
    with Pair Inr show ?thesis
      by (simp add: batch_staged_def split: prod.splits sum.splits)
  qed
qed

lemma batch_staged_world:
  "\<exists>es. log (snd (snd (batch_staged env fn p rs w))) = log w @ es \<and> list_all quiet es
     \<and> files (snd (snd (batch_staged env fn p rs w))) = files w"
proof (cases "parse_file env p w")
  case (Pair r w1)
  show ?thesis
  proof (cases r)
    case (Inl e)
    with Pair have "snd (snd (batch_staged env fn p rs w)) = snd (parse_file env p w)"
      by (simp add: batch_staged_def)
    then show ?thesis
      using parse_file_log [of env p w] parse_file_files [of env p w] by auto
  next
    case (Inr doc)
    with Pair have same: "w1 = w"
      using parse_file_success_world [of env p w doc] by simp
    obtain r2 w2 where a: "analyze_document env doc w = (r2, w2)"
      by (cases "analyze_document env doc w")
    with Pair Inr same have "snd (snd (batch_staged env fn p rs w)) = w2"
      by (cases r2) (simp_all add: batch_staged_def)
    then show ?thesis
      using analyze_document_log [of env doc w] analyze_document_files [of env doc w] a by auto
  qed
qed

lemma batch_block:
  assumes "named_temporary_file env sfx content w = (Inr p, w1)"
  shows "fst (os_unlink p (snd (snd (batch_staged env fn p rs w1)))) = Inr ()
   \<and> cleans_up w (snd (os_unlink p (snd (snd (batch_staged env fn p rs w1)))))"
proof -
  let ?w2 = "snd (snd (batch_staged env fn p rs w1))"
  obtain es where "log ?w2 = log w1 @ es" "list_all quiet es" "files ?w2 = files w1"
    using batch_staged_world [of env fn p rs w1] by blast
  from staged_block_cleans_up [OF assms this, of "snd (os_unlink p ?w2)"]
  show ?thesis
    by simp
qed

lemma batch_turn_staged:
  assumes "py_getitem doc ''fileContent'' = Inr content_b64"
    and "b64decode env content_b64 = Inr content"
    and "py_getitem doc ''fileName'' = Inr fn"
    and "suffix_of_value env fn = Inr sfx"
    and "named_temporary_file env sfx content w = (Inr p, w1)"
  shows "batch_doc_try env doc rs w =
      (fst (batch_staged env fn p rs w1),
       fst (snd (batch_staged env fn p rs w1)),
       snd (os_unlink p (snd (snd (batch_staged env fn p rs w1)))))"
  using assms batch_block [OF assms(5), of fn rs]
  by (simp add: batch_doc_try_def split_beta split: sum.splits)

lemma batch_turn_stage_failed:
  assumes "py_getitem doc ''fileContent'' = Inr content_b64"
    and "b64decode env content_b64 = Inr content"
    and "py_getitem doc ''fileName'' = Inr fn"
    and "suffix_of_value env fn = Inr sfx"
    and "named_temporary_file env sfx content w = (Inl e, w1)"
  shows "batch_doc_try env doc rs w = (Inl e, rs, w1)"
  using assms by (simp add: batch_doc_try_def)





lemma batch_staged_results:
  "fst (batch_staged env fn p rs w) = fst (batch_staged env fn p [] w)
   \<and> fst (snd (batch_staged env fn p rs w)) = rs @ fst (snd (batch_staged env fn p [] w))
   \<and> (case fst (batch_staged env fn p [] w) of
         Inl e \<Rightarrow> fst (snd (batch_staged env fn p [] w)) = []
       | Inr u \<Rightarrow>
           (\<exists>a. fst (snd (batch_staged env fn p [] w))
                     = [JObj [(''success'', JBool True), (''fileName'', fn), (''analysis'', a)]]))"
  by (simp add: batch_staged_outcome split: sum.splits)

lemma batch_doc_try_results:
  "fst (batch_doc_try env doc rs w) = fst (batch_doc_try env doc [] w)
   \<and> fst (snd (batch_doc_try env doc rs w)) = rs @ fst (snd (batch_doc_try env doc [] w))
   \<and> (case fst (batch_doc_try env doc [] w) of
         Inl e \<Rightarrow> fst (snd (batch_doc_try env doc [] w)) = []
       | Inr u \<Rightarrow>
           (\<exists>fn a. fst (snd (batch_doc_try env doc [] w))
                     = [JObj [(''success'', JBool True), (''fileName'', fn), (''analysis'', a)]]
                  \<and> py_getitem doc ''fileName'' = Inr fn))"
proof (cases "py_getitem doc ''fileContent''")
  case (Inl e)
  then show ?thesis by (simp add: batch_doc_try_def)
next
  case b64: (Inr content_b64)
  show ?thesis
  proof (cases "b64decode env content_b64")
    case (Inl e)
    with b64 show ?thesis by (simp add: batch_doc_try_def)
  next
    case content: (Inr content)
    show ?thesis
    proof (cases "py_getitem doc ''fileName''")
      case (Inl e)
      with b64 content show ?thesis by (simp add: batch_doc_try_def)
    next
      case fn: (Inr fn)
      show ?thesis
      proof (cases "suffix_of_value env fn")
        case (Inl e)
        with b64 content fn show ?thesis by (simp add: batch_doc_try_def)
      next
        case sfx: (Inr sfx)
        obtain r w1 where stage: "named_temporary_file env sfx content w = (r, w1)"
          by (cases "named_temporary_file env sfx content w")
        show ?thesis
        proof (cases r)
          case (Inl e)
          with stage have "named_temporary_file env sfx content w = (Inl e, w1)"
            by simp
          from batch_turn_stage_failed [OF b64 content fn sfx this]
          show ?thesis by simp
        next
          case (Inr p)
          with stage have "named_temporary_file env sfx content w = (Inr p, w1)"
            by simp
          from batch_turn_staged [OF b64 content fn sfx this]
            batch_staged_results [of env fn p rs w1] fn
          show ?thesis by (simp split: sum.splits)
        qed
      qed
    qed
  qed
qed

lemma named_temporary_file_reads:
  assumes "tmp_seq w = tmp_seq w'"
  shows "fst (named_temporary_file env sfx content w) = fst (named_temporary_file env sfx content w')"
  using assms by (simp add: named_temporary_file_def Let_def split: option.splits prod.splits)

lemma staged_world_facts:
  assumes "named_temporary_file env sfx content w = (Inr p, w1)"
  shows "files w1 p = Some content" and "ticks w1 = ticks w"
  using assms
  by (auto simp: named_temporary_file_def Let_def split: option.splits prod.splits)

lemma batch_doc_try_reads:
  assumes "ticks w = ticks w'" and "tmp_seq w = tmp_seq w'"
  shows "fst (batch_doc_try env doc rs w) = fst (batch_doc_try env doc rs w')
     \<and> fst (snd (batch_doc_try env doc rs w)) = fst (snd (batch_doc_try env doc rs w'))"
proof (cases "py_getitem doc ''fileContent''")
  case (Inl e)
  then show ?thesis by (simp add: batch_doc_try_def)
next
  case b64: (Inr content_b64)
  show ?thesis
  proof (cases "b64decode env content_b64")
    case (Inl e)
    with b64 show ?thesis by (simp add: batch_doc_try_def)
  next
    case content: (Inr content)
    show ?thesis
    proof (cases "py_getitem doc ''fileName''")
      case (Inl e)
      with b64 content show ?thesis by (simp add: batch_doc_try_def)
    next
      case fn: (Inr fn)
      show ?thesis
      proof (cases "suffix_of_value env fn")
        case (Inl e)
        with b64 content fn show ?thesis by (simp add: batch_doc_try_def)
      next
        case sfx: (Inr sfx)
        obtain r w1 where stage: "named_temporary_file env sfx content w = (r, w1)"
          by (cases "named_temporary_file env sfx content w")
        obtain r' w1' where stage': "named_temporary_file env sfx content w' = (r', w1')"
          by (cases "named_temporary_file env sfx content w'")
        have same: "r' = r"
          using named_temporary_file_reads [OF assms(2), of env sfx content] stage stage' by simp
        show ?thesis
        proof (cases r)
          case (Inl e)
          with stage stage' same
          have "named_temporary_file env sfx content w = (Inl e, w1)"
            "named_temporary_file env sfx content w' = (Inl e, w1')"
            by simp_all
          from batch_turn_stage_failed [OF b64 content fn sfx this(1)]
            batch_turn_stage_failed [OF b64 content fn sfx this(2)]
          show ?thesis by simp
        next
          case (Inr p)
          with stage stage' same
          have st: "named_temporary_file env sfx content w = (Inr p, w1)"
            "named_temporary_file env sfx content w' = (Inr p, w1')"
            by simp_all
          have "files w1 p = files w1' p" "ticks w1 = ticks w1'"
            using staged_world_facts [OF st(1)] staged_world_facts [OF st(2)] assms(1) by simp_all
          then have pf: "fst (parse_file env p w1) = fst (parse_file env p w1')"
            and an: "fst (analyze_document env doc w1) = fst (analyze_document env doc w1')" for doc
            by (auto intro: parse_file_reads_only_its_file analyze_document_reads_only_the_clock)
          have "fst (batch_staged env fn p rs w1) = fst (batch_staged env fn p rs w1')
            \<and> fst (snd (batch_staged env fn p rs w1)) = fst (snd (batch_staged env fn p rs w1'))"
            by (simp add: batch_staged_outcome pf an split: sum.splits)
          with batch_turn_staged [OF b64 content fn sfx st(1)]
            batch_turn_staged [OF b64 content fn sfx st(2)]
          show ?thesis by simp
        qed
      qed
    qed
  qed
qed

lemma batch_doc_fst:
  "fst (batch_doc env doc rs w) =
     (case fst (batch_doc_try env doc rs w) of
        Inr u \<Rightarrow> Inr (fst (snd (batch_doc_try env doc rs w)))
      | Inl e \<Rightarrow>
          (case py_get doc ''fileName'' (JStr ''unknown'') of
             Inl e' \<Rightarrow> Inl e'
           | Inr name \<Rightarrow>
               Inr (fst (snd (batch_doc_try env doc rs w))
                    @ [JObj [(''success'', JBool False), (''fileName'', name),
                             (''error'', JStr (exn_str e))]])))"
  by (simp add: batch_doc_def split: prod.splits sum.splits)

lemma batch_doc_reads:
  assumes "ticks w = ticks w'" and "tmp_seq w = tmp_seq w'"
  shows "fst (batch_doc env doc rs w) = fst (batch_doc env doc rs w')"
proof -
  from batch_doc_try_reads [OF assms, of env doc rs]
  have a: "fst (batch_doc_try env doc rs w) = fst (batch_doc_try env doc rs w')"
    and b: "fst (snd (batch_doc_try env doc rs w)) = fst (snd (batch_doc_try env doc rs w'))"
    by simp_all
  show ?thesis
    unfolding batch_doc_fst a b ..
qed

lemma batch_doc_object:
  "\<exists>x. fst (batch_doc env (JObj kvs) rs w) = Inr (rs @ [x])
     \<and> fst (batch_doc env (JObj kvs) [] w) = Inr [x]
     \<and> ((\<exists>fn a. x = JObj [(''success'', JBool True), (''fileName'', fn), (''analysis'', a)]
                \<and> py_getitem (JObj kvs) ''fileName'' = Inr fn
                \<and> fst (batch_doc_try env (JObj kvs) [] w) = Inr ())
        \<or> (\<exists>name e. x = JObj [(''success'', JBool False), (''fileName'', name), (''error'', JStr (exn_str e))]
                \<and> py_get (JObj kvs) ''fileName'' (JStr ''unknown'') = Inr name
                \<and> fst (batch_doc_try env (JObj kvs) [] w) = Inl e))"
proof -
  let ?doc = "JObj kvs"
  note r = batch_doc_try_results [of env ?doc rs w]
  show ?thesis
  proof (cases "fst (batch_doc_try env ?doc [] w)")
    case (Inl e)
    with r have "fst (snd (batch_doc_try env ?doc [] w)) = []"
      "fst (snd (batch_doc_try env ?doc rs w)) = rs"
      "fst (batch_doc_try env ?doc rs w) = Inl e"
      by simp_all
    with Inl show ?thesis
      by (simp add: batch_doc_fst)
  next
    case (Inr u)
    with r obtain fn a where
      "fst (snd (batch_doc_try env ?doc [] w))
         = [JObj [(''success'', JBool True), (''fileName'', fn), (''analysis'', a)]]"
      "py_getitem ?doc ''fileName'' = Inr fn"
      by auto
    with r Inr show ?thesis
      by (simp add: batch_doc_fst)
  qed
qed


lemma batch_loop_objects:
  assumes "\<forall>d \<in> set docs. \<exists>kvs. d = JObj kvs"
  shows "\<exists>new. fst (batch_loop env docs rs w) = Inr (rs @ new) \<and> length new = length docs
    \<and> (\<forall>i < length docs.
          (\<exists>t s. \<forall>w0. ticks w0 = t \<and> tmp_seq w0 = s \<longrightarrow>
              fst (batch_doc env (docs ! i) [] w0) = Inr [new ! i]
              \<and> ((\<exists>fn a. new ! i = JObj [(''success'', JBool True), (''fileName'', fn), (''analysis'', a)]
                      \<and> py_getitem (docs ! i) ''fileName'' = Inr fn
                      \<and> fst (batch_doc_try env (docs ! i) [] w0) = Inr ())
                 \<or> (\<exists>name e. new ! i = JObj [(''success'', JBool False), (''fileName'', name),
                                           (''error'', JStr (exn_str e))]
                      \<and> py_get (docs ! i) ''fileName'' (JStr ''unknown'') = Inr name
                      \<and> fst (batch_doc_try env (docs ! i) [] w0) = Inl e))))"
proof -
  define P where "P = (\<lambda>d x.
      (\<exists>t s. \<forall>w0. ticks w0 = t \<and> tmp_seq w0 = s \<longrightarrow>
          fst (batch_doc env (d) [] w0) = Inr [x]
          \<and> ((\<exists>fn a. x = JObj [(''success'', JBool True), (''fileName'', fn), (''analysis'', a)]
                  \<and> py_getitem (d) ''fileName'' = Inr fn
                  \<and> fst (batch_doc_try env (d) [] w0) = Inr ())
             \<or> (\<exists>name e. x = JObj [(''success'', JBool False), (''fileName'', name),
                                       (''error'', JStr (exn_str e))]
                  \<and> py_get (d) ''fileName'' (JStr ''unknown'') = Inr name
                  \<and> fst (batch_doc_try env (d) [] w0) = Inl e))))"
  have "\<exists>new. fst (batch_loop env docs rs w) = Inr (rs @ new) \<and> length new = length docs
    \<and> (\<forall>i < length docs. P (docs ! i) (new ! i))"
    using assms
  proof (induction docs arbitrary: rs w)
    case Nil
    show ?case by simp
  next
    case (Cons d docs)
    then obtain kvs where d: "d = JObj kvs"
      by auto
    from batch_doc_object [of env kvs rs w]
    have "\<exists>x. fst (batch_doc env d rs w) = Inr (rs @ [x])
       \<and> fst (batch_doc env d [] w) = Inr [x]
       \<and> ((\<exists>fn a. x = JObj [(''success'', JBool True), (''fileName'', fn), (''analysis'', a)]
                  \<and> py_getitem d ''fileName'' = Inr fn
                  \<and> fst (batch_doc_try env d [] w) = Inr ())
          \<or> (\<exists>name e. x = JObj [(''success'', JBool False), (''fileName'', name), (''error'', JStr (exn_str e))]
                  \<and> py_get d ''fileName'' (JStr ''unknown'') = Inr name
                  \<and> fst (batch_doc_try env d [] w) = Inl e))"
      unfolding d .
    then obtain x where turn: "fst (batch_doc env d rs w) = Inr (rs @ [x])
       \<and> fst (batch_doc env d [] w) = Inr [x]
       \<and> ((\<exists>fn a. x = JObj [(''success'', JBool True), (''fileName'', fn), (''analysis'', a)]
                  \<and> py_getitem d ''fileName'' = Inr fn
                  \<and> fst (batch_doc_try env d [] w) = Inr ())
          \<or> (\<exists>name e. x = JObj [(''success'', JBool False), (''fileName'', name), (''error'', JStr (exn_str e))]
                  \<and> py_get d ''fileName'' (JStr ''unknown'') = Inr name
                  \<and> fst (batch_doc_try env d [] w) = Inl e))"
      ..
    note x = turn [THEN conjunct1]
    note x0 = turn [THEN conjunct2, THEN conjunct1]
    note kind = turn [THEN conjunct2, THEN conjunct2]
    have head: "P d x"
      unfolding P_def
    proof (rule exI [of _ "ticks w"], rule exI [of _ "tmp_seq w"], intro allI impI)
      fix w0 :: world
      assume same: "ticks w0 = ticks w \<and> tmp_seq w0 = tmp_seq w"
      then have a: "fst (batch_doc env d [] w0) = Inr [x]"
        using batch_doc_reads [of w0 w env d "[]"] x0 by simp
      from same have b: "fst (batch_doc_try env d [] w0) = fst (batch_doc_try env d [] w)"
        using batch_doc_try_reads [of w0 w env d "[]"] by simp
      show "fst (batch_doc env d [] w0) = Inr [x]
        \<and> ((\<exists>fn a. x = JObj [(''success'', JBool True), (''fileName'', fn), (''analysis'', a)]
                \<and> py_getitem d ''fileName'' = Inr fn
                \<and> fst (batch_doc_try env d [] w0) = Inr ())
           \<or> (\<exists>name e. x = JObj [(''success'', JBool False), (''fileName'', name),
                                 (''error'', JStr (exn_str e))]
                \<and> py_get d ''fileName'' (JStr ''unknown'') = Inr name
                \<and> fst (batch_doc_try env d [] w0) = Inl e))"
        unfolding b by (rule conjI [OF a kind])
    qed
    let ?w1 = "snd (batch_doc env d rs w)"
    from Cons.prems have "\<forall>d \<in> set docs. \<exists>kvs. d = JObj kvs"
      by simp
    from Cons.IH [OF this, of "rs @ [x]" ?w1]
    obtain new where new: "fst (batch_loop env docs (rs @ [x]) ?w1) = Inr ((rs @ [x]) @ new)"
      "length new = length docs"
      "\<forall>i < length docs. P (docs ! i) (new ! i)"
      by blast
    have loop: "fst (batch_loop env (d # docs) rs w) = Inr (rs @ (x # new))"
      using x new(1) by (cases "batch_doc env d rs w") simp
    have each: "P ((d # docs) ! i) ((x # new) ! i)" if "i < length (d # docs)" for i
      using that head new(3) by (cases i) simp_all
    from loop new(2) each show ?case
      by (intro exI [of _ "x # new"]) simp
  qed
  then show ?thesis
    unfolding P_def .
qed




lemma batch_analyze_objects:
  assumes "get_json req = Inr (JObj body)"
    and "map_of body ''documents'' = Some (JArr docs)"
    and "docs \<noteq> []"
    and "fst (batch_loop env docs [] w) = Inr rs"
  shows "fst (batch_analyze env req w) =
      JsonResponse
        (JObj [(''success'', JBool True),
               (''totalDocuments'', JInt (int (length docs))),
               (''results'', JArr rs),
               (''processedAt'', JStr (isoformat_now env (ticks (snd (batch_loop env docs [] w)))))])
        200"
  using assms
  by (cases "batch_loop env docs [] w")
    (simp add: batch_analyze_def batch_try_def datetime_now_iso_def)

text \<open>
  Entries that are JSON objects. A batch request whose body is an object with a non-empty
  list \<open>documents\<close> of objects is answered with status 200, \<open>totalDocuments\<close> equal to
  the length of the list and one result per document, in the order of the documents. Each
  result is what one turn of the loop produces for that document alone, whatever is on
  disk and in the log: it depends on the document, the clock reading and the
  temporary-name counter, not on how the other documents fared. When the turn succeeds the
  result is the success record of the document; when the turn raises \<open>e\<close>, the result
  is \<^verbatim>\<open>{success: false, fileName: ..., error: str(e)}\<close>, with the document's
  \<open>fileName\<close> or \<^verbatim>\<open>unknown\<close> when it has none.
\<close>

lemma batch_of_objects_gives_one_result_each:
  assumes "get_json req = Inr (JObj body)"
    and "map_of body ''documents'' = Some (JArr docs)"
    and "docs \<noteq> []"
    and "\<forall>d \<in> set docs. \<exists>kvs. d = JObj kvs"
  shows "\<exists>rs now.
      fst (batch_analyze env req w) =
        JsonResponse
          (JObj [(''success'', JBool True),
                 (''totalDocuments'', JInt (int (length docs))),
                 (''results'', JArr rs),
                 (''processedAt'', JStr now)])
          200
      \<and> length rs = length docs
      \<and> (\<forall>i < length docs.
            (\<exists>t s. \<forall>w0. ticks w0 = t \<and> tmp_seq w0 = s \<longrightarrow>
                fst (batch_doc env (docs ! i) [] w0) = Inr [rs ! i]
                \<and> ((\<exists>fn a. rs ! i = JObj [(''success'', JBool True), (''fileName'', fn), (''analysis'', a)]
                        \<and> py_getitem (docs ! i) ''fileName'' = Inr fn
                        \<and> fst (batch_doc_try env (docs ! i) [] w0) = Inr ())
                   \<or> (\<exists>name e. rs ! i = JObj [(''success'', JBool False), (''fileName'', name),
                                             (''error'', JStr (exn_str e))]
                        \<and> py_get (docs ! i) ''fileName'' (JStr ''unknown'') = Inr name
                        \<and> fst (batch_doc_try env (docs ! i) [] w0) = Inl e))))"
proof -
  define P where "P = (\<lambda>d x.
      (\<exists>t s. \<forall>w0. ticks w0 = t \<and> tmp_seq w0 = s \<longrightarrow>
          fst (batch_doc env (d) [] w0) = Inr [x]
          \<and> ((\<exists>fn a. x = JObj [(''success'', JBool True), (''fileName'', fn), (''analysis'', a)]
                  \<and> py_getitem (d) ''fileName'' = Inr fn
                  \<and> fst (batch_doc_try env (d) [] w0) = Inr ())
             \<or> (\<exists>name e. x = JObj [(''success'', JBool False), (''fileName'', name),
                                       (''error'', JStr (exn_str e))]
                  \<and> py_get (d) ''fileName'' (JStr ''unknown'') = Inr name
                  \<and> fst (batch_doc_try env (d) [] w0) = Inl e))))"
  from batch_loop_objects [OF assms(4), of env "[]" w]
  have "\<exists>new. fst (batch_loop env docs [] w) = Inr ([] @ new) \<and> length new = length docs
    \<and> (\<forall>i < length docs. P (docs ! i) (new ! i))"
    unfolding P_def .
  then obtain rs where rs: "fst (batch_loop env docs [] w) = Inr rs" "length rs = length docs"
    "\<forall>i < length docs. P (docs ! i) (rs ! i)"
    by auto
  from batch_analyze_objects [OF assms(1-3) rs(1)] rs(2,3)
  have "\<exists>rs now.
      fst (batch_analyze env req w) =
        JsonResponse
          (JObj [(''success'', JBool True),
                 (''totalDocuments'', JInt (int (length docs))),
                 (''results'', JArr rs),
                 (''processedAt'', JStr now)])
          200
      \<and> length rs = length docs
      \<and> (\<forall>i < length docs. P (docs ! i) (rs ! i))"
    by blast
  then show ?thesis
    unfolding P_def .
qed

lemma demo_suffix_facts:
  "demo_suffix ''a.txt'' = ''.txt''"
  "demo_suffix ''b.txt'' = ''.txt''"
  "demo_suffix ''c.txt'' = ''.txt''"
  "demo_suffix ''empty.txt'' = ''.txt''"
  "demo_suffix ''/tmp/tmp.txt'' = ''.txt''"
  "demo_suffix ''/tmp/tmpx.txt'' = ''.txt''"
  by code_simp+

lemmas demo_run =
  batch_analyze_def batch_try_def batch_doc_def batch_doc_try_def batch_staged_def
  analyze_document_route_def analyze_route_try_def analyze_staged_def unlink_quietly_def
  named_temporary_file_def os_unlink_def suffix_of_value_def
  parse_file_def parse_dispatch_def parse_txt_def analyze_document_def analyze_try_def
  datetime_now_iso_def logger_error_def Let_def post_json_def error_response_def
  demo_def demo_b64decode_def demo_utf8_decode_def demo_json_loads_def demo_object_def
  empty_world_def demo_suffix_facts demo_suffixes(6-10) strip_examples

lemma demo_batch_of_three:
  "fst (batch_analyze demo
     (post_json ''/batch-analyze'' (JObj [(''documents'', JArr
        [JObj [(''fileContent'', JStr ''aGVsbG8=''), (''fileName'', JStr ''a.txt'')],
         JObj [(''fileContent'', JStr ''abc''), (''fileName'', JStr ''b.txt'')],
         JObj [(''fileContent'', JStr ''aGVsbG8=''), (''fileName'', JStr ''c.txt'')]])]))
     empty_world)
   = JsonResponse
      (JObj [(''success'', JBool True),
             (''totalDocuments'', JInt 3),
             (''results'', JArr
               [JObj [(''success'', JBool True), (''fileName'', JStr ''a.txt''),
                      (''analysis'', JObj (map (\<lambda>k. (k, JStr ''n/a'')) the_requested_keys @
                          [(''analysis_timestamp'', JStr ''2025-01-01T00:00:00''),
                           (''document_length'', JInt 5)]))],
                JObj [(''success'', JBool False), (''fileName'', JStr ''b.txt''),
                      (''error'', JStr ''Incorrect padding'')],
                JObj [(''success'', JBool True), (''fileName'', JStr ''c.txt''),
                      (''analysis'', JObj (map (\<lambda>k. (k, JStr ''n/a'')) the_requested_keys @
                          [(''analysis_timestamp'', JStr ''2025-01-01T00:00:000''),
                           (''document_length'', JInt 5)]))]]),
             (''processedAt'', JStr ''2025-01-01T00:00:0000'')])
      200"
  by (simp add: demo_run the_requested_keys_def)

lemma demo_batch_object_then_number:
  "batch_analyze demo
     (post_json ''/batch-analyze'' (JObj [(''documents'', JArr
        [JObj [(''fileContent'', JStr ''aGVsbG8=''), (''fileName'', JStr ''a.txt'')],
         JInt 5])]))
     empty_world
   = (JsonResponse
        (JObj [(''success'', JBool False),
               (''error'', JStr (''Internal server error: '' @ squote ''int''
                                 @ '' object has no attribute '' @ squote ''get''))])
        500,
      \<lparr>files = (\<lambda>p. None), tmp_seq = 1, ticks = 1,
       log = [EvStage ''/tmp/tmp.txt'', EvLLM (analysis_prompt ''hello''), EvUnlink ''/tmp/tmp.txt'',
              EvLogError (''Error in batch_analyze: '' @ squote ''int''
                          @ '' object has no attribute '' @ squote ''get'')]\<rparr>)"
  by (simp add: demo_run the_requested_keys_def squote_def fun_eq_iff)

text \<open>
  C3. The loop of \<^verbatim>\<open>POST /batch-analyze\<close> wraps each turn in
  \<^verbatim>\<open>try ... except Exception\<close> so that a failing entry becomes a record
  \<^verbatim>\<open>{success: false, fileName: ..., error: ...}\<close> and the loop goes on. The clause
  itself calls \<^verbatim>\<open>doc.get('fileName', 'unknown')\<close>, which raises when the entry is
  not an object. For the documents \<^verbatim>\<open>[{fileContent: "aGVsbG8=", fileName: "a.txt"}, 5]\<close>
  the first entry is analysed (its prompt is sent to the model, and alone it yields a
  success record); the second entry fails with a \<open>TypeError\<close> in
  \<^verbatim>\<open>doc['fileContent']\<close>, the clause raises \<open>AttributeError\<close>, and the request is
  answered with status 500 and no results: neither the record of the first entry nor a
  failure record of the second, where two results and status 200 were due.
\<close>

theorem batch_aborts_on_entry_that_is_not_an_object:
  "fst (batch_analyze demo
     (post_json ''/batch-analyze'' (JObj [(''documents'', JArr
        [JObj [(''fileContent'', JStr ''aGVsbG8=''), (''fileName'', JStr ''a.txt'')],
         JInt 5])]))
     empty_world)
   = JsonResponse
       (JObj [(''success'', JBool False),
              (''error'', JStr (''Internal server error: '' @ squote ''int''
                                @ '' object has no attribute '' @ squote ''get''))])
       500
   \<and> prompts_sent (log (snd (batch_analyze demo
     (post_json ''/batch-analyze'' (JObj [(''documents'', JArr
        [JObj [(''fileContent'', JStr ''aGVsbG8=''), (''fileName'', JStr ''a.txt'')],
         JInt 5])]))
     empty_world)))
     = [analysis_prompt ''hello'']
   \<and> fst (batch_doc demo
        (JObj [(''fileContent'', JStr ''aGVsbG8=''), (''fileName'', JStr ''a.txt'')]) [] empty_world)
     = Inr [JObj [(''success'', JBool True), (''fileName'', JStr ''a.txt''),
                  (''analysis'', JObj (map (\<lambda>k. (k, JStr ''n/a'')) the_requested_keys @
                      [(''analysis_timestamp'', JStr ''2025-01-01T00:00:00''),
                       (''document_length'', JInt 5)]))]]
   \<and> batch_doc_try demo (JInt 5) [] empty_world
     = (Inl (TypeError (squote ''int'' @ '' object is not subscriptable'')), [], empty_world)
   \<and> batch_doc demo (JInt 5) [] empty_world
     = (Inl (AttributeError (squote ''int'' @ '' object has no attribute '' @ squote ''get'')),
        empty_world)"
proof -
  have "fst (batch_doc demo
        (JObj [(''fileContent'', JStr ''aGVsbG8=''), (''fileName'', JStr ''a.txt'')]) [] empty_world)
     = Inr [JObj [(''success'', JBool True), (''fileName'', JStr ''a.txt''),
                  (''analysis'', JObj (map (\<lambda>k. (k, JStr ''n/a'')) the_requested_keys @
                      [(''analysis_timestamp'', JStr ''2025-01-01T00:00:00''),
                       (''document_length'', JInt 5)]))]]"
    by (simp add: demo_run the_requested_keys_def)
  moreover have "batch_doc_try demo (JInt 5) [] empty_world
     = (Inl (TypeError (squote ''int'' @ '' object is not subscriptable'')), [], empty_world)"
    by (simp add: batch_doc_try_def)
  moreover have "batch_doc demo (JInt 5) [] empty_world
     = (Inl (AttributeError (squote ''int'' @ '' object has no attribute '' @ squote ''get'')),
        empty_world)"
    by (simp add: batch_doc_def batch_doc_try_def)
  ultimately show ?thesis
    by (simp add: demo_batch_object_then_number)
qed

section \<open>When the temporary file goes away\<close>









section \<open>Blank text in a batch\<close>

text \<open>
  C4. The handler of \<^verbatim>\<open>POST /analyze\<close> stops at blank extracted text: status 400,
  \<^verbatim>\<open>No text could be extracted from the document\<close>, and no prompt is sent. The loop of
  \<^verbatim>\<open>POST /batch-analyze\<close> has no such check: for an empty text file the extracted
  text is empty, the prompt is sent to the model all the same, and the entry is recorded
  as a success with \<open>document_length\<close> 0.
\<close>

theorem batch_sends_empty_text_to_model:
  "analyze_document_route demo
      (post_json ''/analyze'' (JObj [(''fileContent'', JStr ''ICAK''), (''fileName'', JStr ''empty.txt'')]))
      empty_world
    = (JsonResponse
         (JObj [(''success'', JBool False),
                (''error'', JStr ''No text could be extracted from the document'')])
         400,
       \<lparr>files = (\<lambda>p. None), tmp_seq = 1, ticks = 0,
        log = [EvStage ''/tmp/tmp.txt'', EvUnlink ''/tmp/tmp.txt'']\<rparr>)
   \<and> fst (parse_file demo ''/tmp/tmp.txt''
        \<lparr>files = [''/tmp/tmp.txt'' \<mapsto> []], tmp_seq = 1, ticks = 0, log = [EvStage ''/tmp/tmp.txt'']\<rparr>)
      = Inr []
   \<and> fst (batch_analyze demo
      (post_json ''/batch-analyze'' (JObj [(''documents'', JArr
          [JObj [(''fileContent'', JStr ''''), (''fileName'', JStr ''empty.txt'')]])]))
      empty_world)
    = JsonResponse
        (JObj [(''success'', JBool True),
               (''totalDocuments'', JInt 1),
               (''results'', JArr
                 [JObj [(''success'', JBool True), (''fileName'', JStr ''empty.txt''),
                        (''analysis'', JObj (map (\<lambda>k. (k, JStr ''n/a'')) the_requested_keys @
                            [(''analysis_timestamp'', JStr ''2025-01-01T00:00:00''),
                             (''document_length'', JInt 0)]))]]),
               (''processedAt'', JStr ''2025-01-01T00:00:000'')])
        200
   \<and> log (snd (batch_analyze demo
      (post_json ''/batch-analyze'' (JObj [(''documents'', JArr
          [JObj [(''fileContent'', JStr ''''), (''fileName'', JStr ''empty.txt'')]])]))
      empty_world))
    = [EvStage ''/tmp/tmp.txt'', EvLLM (analysis_prompt []), EvUnlink ''/tmp/tmp.txt'']"
  by (simp add: demo_run the_requested_keys_def fun_eq_iff)


end
